theory Spec2Isabelle
  imports Main "HOL-Library.Word"
begin

section \<open>Common data\<close>

text \<open>
  Byte strings (digests, thumbnails) are lists of octets, paths and messages are strings,
  Python's unbounded integers are \<open>int\<close>, and a value that may be \<open>None\<close> is an option.
  A media type is one of the integer constants of \<open>HydrusConstants\<close>; a resolution is a
  pair (width, height).
\<close>

type_synonym bytes = "8 word list"
type_synonym mime = int
type_synonym resolution = "int \<times> int"

text \<open>
  The exception classes of \<open>HydrusExceptions\<close> that the two modules name, the two errors
  Python raises when a tuple is unpacked into the wrong number of names (\<open>ValueError\<close>) or
  a non-iterable is unpacked (\<open>TypeError\<close>), and \<open>Fault\<close> for any other exception that
  a collaborator may raise.
\<close>

datatype exn =
    FileSizeException string
  | DecompressionBombException string
  | DamagedOrUnusualFileException string
  | FileMissingException string
  | ValueError
  | TypeError
  | Fault string

text \<open>Statements of a pure function run in order; the first one that raises ends the call.\<close>

definition and_then :: "exn + unit \<Rightarrow> exn + unit \<Rightarrow> exn + unit" where
  "and_then a b = (case a of Inl e \<Rightarrow> Inl e | Inr u \<Rightarrow> b)"

section \<open>FileImportOptions\<close>

text \<open>
  The constants of \<open>HydrusConstants\<close> and the formatting helpers of \<open>HydrusData\<close> are
  not part of the two modules; the functions below take them as parameters.
\<close>

record HC =
  IMAGE_GIF :: mime
  DECOMPRESSION_BOMB_IMAGES :: "mime list"
  MIMES_WITH_THUMBNAILS :: "mime list"
  MIMES_WE_CAN_PHASH :: "mime list"

record HydrusData =
  ToHumanBytes :: "int \<Rightarrow> string"
  ConvertResolutionToPrettyString :: "int option \<times> int option \<Rightarrow> string"

record FileImportOptions =
  exclude_deleted :: bool
  do_not_check_known_urls_before_importing :: bool
  do_not_check_hashes_before_importing :: bool
  allow_decompression_bombs :: bool
  min_size :: "int option"
  max_size :: "int option"
  max_gif_size :: "int option"
  min_resolution :: "resolution option"
  max_resolution :: "resolution option"
  automatic_archive :: bool
  associate_primary_urls :: bool
  associate_source_urls :: bool
  present_new_files :: bool
  present_already_in_inbox_files :: bool
  present_already_in_archive_files :: bool

text \<open>\<open>FileImportOptions.__init__\<close>\<close>

definition FileImportOptions_init :: FileImportOptions where
  "FileImportOptions_init = \<lparr>
     exclude_deleted = True,
     do_not_check_known_urls_before_importing = False,
     do_not_check_hashes_before_importing = False,
     allow_decompression_bombs = True,
     min_size = None,
     max_size = None,
     max_gif_size = None,
     min_resolution = None,
     max_resolution = None,
     automatic_archive = False,
     associate_primary_urls = True,
     associate_source_urls = True,
     present_new_files = True,
     present_already_in_inbox_files = True,
     present_already_in_archive_files = True \<rparr>"

subsection \<open>Serialised forms\<close>

text \<open>
  The serialised tuple has one shape per schema version. Version 1 is
  (automatic_archive, exclude_deleted, min_size, min_resolution); version 2 adds the three
  presentation flags; version 3 is (pre_import_options, automatic_archive,
  presentation_options); version 4 makes the middle component a pair and version 5 a triple.
\<close>

type_synonym presentation_options = "bool \<times> bool \<times> bool"

type_synonym pre_import_options_3 =
  "bool \<times> bool \<times> int option \<times> int option \<times> int option \<times> resolution option \<times> resolution option"

type_synonym pre_import_options =
  "bool \<times> bool \<times> bool \<times> bool \<times> int option \<times> int option \<times> int option
     \<times> resolution option \<times> resolution option"

datatype serialisable_info =
    Tuple1 "bool \<times> bool \<times> int option \<times> resolution option"
  | Tuple2 "bool \<times> bool \<times> bool \<times> bool \<times> bool \<times> int option \<times> resolution option"
  | Tuple3 "pre_import_options_3 \<times> bool \<times> presentation_options"
  | Tuple4 "pre_import_options \<times> (bool \<times> bool) \<times> presentation_options"
  | Tuple5 "pre_import_options \<times> (bool \<times> bool \<times> bool) \<times> presentation_options"

definition SERIALISABLE_VERSION :: int where
  "SERIALISABLE_VERSION = 5"

text \<open>\<open>FileImportOptions._GetSerialisableInfo\<close>\<close>

definition GetSerialisableInfo :: "FileImportOptions \<Rightarrow> serialisable_info" where
  "GetSerialisableInfo self =
     (let pre_import_options =
            (exclude_deleted self, do_not_check_known_urls_before_importing self,
             do_not_check_hashes_before_importing self, allow_decompression_bombs self,
             min_size self, max_size self, max_gif_size self,
             min_resolution self, max_resolution self);
          post_import_options =
            (automatic_archive self, associate_primary_urls self, associate_source_urls self);
          presentation_options =
            (present_new_files self, present_already_in_inbox_files self,
             present_already_in_archive_files self)
      in Tuple5 (pre_import_options, post_import_options, presentation_options))"

text \<open>
  \<open>FileImportOptions._InitialiseFromSerialisableInfo\<close> assigns the fields of \<open>self\<close> in
  three unpacking statements. The result is the outcome of the call together with the
  object as the call leaves it: an unpacking that fails raises after the statements before
  it have already assigned their fields.
\<close>

fun InitialiseFromSerialisableInfo ::
  "FileImportOptions \<Rightarrow> serialisable_info \<Rightarrow> (exn + unit) \<times> FileImportOptions" where
  "InitialiseFromSerialisableInfo self
     (Tuple5 ((ed, dncku, dnch, adb, mns, mxs, mxg, mnr, mxr), (aa, apu, asu), (pn, pi, pa))) =
       (Inr (), self\<lparr>
          exclude_deleted := ed,
          do_not_check_known_urls_before_importing := dncku,
          do_not_check_hashes_before_importing := dnch,
          allow_decompression_bombs := adb,
          min_size := mns, max_size := mxs, max_gif_size := mxg,
          min_resolution := mnr, max_resolution := mxr,
          automatic_archive := aa, associate_primary_urls := apu, associate_source_urls := asu,
          present_new_files := pn, present_already_in_inbox_files := pi,
          present_already_in_archive_files := pa \<rparr>)"
| "InitialiseFromSerialisableInfo self
     (Tuple4 ((ed, dncku, dnch, adb, mns, mxs, mxg, mnr, mxr), post, pres)) =
       (Inl ValueError, self\<lparr>
          exclude_deleted := ed,
          do_not_check_known_urls_before_importing := dncku,
          do_not_check_hashes_before_importing := dnch,
          allow_decompression_bombs := adb,
          min_size := mns, max_size := mxs, max_gif_size := mxg,
          min_resolution := mnr, max_resolution := mxr \<rparr>)"
| "InitialiseFromSerialisableInfo self (Tuple3 t) = (Inl ValueError, self)"
| "InitialiseFromSerialisableInfo self (Tuple2 t) = (Inl ValueError, self)"
| "InitialiseFromSerialisableInfo self (Tuple1 t) = (Inl ValueError, self)"

text \<open>
  \<open>FileImportOptions._UpdateSerialisableInfo\<close>: one branch per source version, each
  unpacking the old tuple and returning the next version number with the new tuple. A
  tuple of another shape than the branch unpacks raises; a version that no branch tests
  reaches the end of the function, which returns \<open>None\<close>. The local names of
  the source carry a prime here, the plain names being the fields of the record.
\<close>

fun UpdateSerialisableInfo_1 :: "serialisable_info \<Rightarrow> exn + (int \<times> serialisable_info) option" where
  "UpdateSerialisableInfo_1 (Tuple1 (automatic_archive', exclude_deleted', min_size', min_resolution')) =
     (let present_new_files' = True;
          present_already_in_inbox_files' = False;
          present_already_in_archive_files' = False;
          new_serialisable_info =
            Tuple2 (automatic_archive', exclude_deleted', present_new_files',
                    present_already_in_inbox_files', present_already_in_archive_files',
                    min_size', min_resolution')
      in Inr (Some (2, new_serialisable_info)))"
| "UpdateSerialisableInfo_1 other = Inl ValueError"

fun UpdateSerialisableInfo_2 :: "serialisable_info \<Rightarrow> exn + (int \<times> serialisable_info) option" where
  "UpdateSerialisableInfo_2
     (Tuple2 (automatic_archive', exclude_deleted', present_new_files',
              present_already_in_inbox_files', present_already_in_archive_files',
              min_size', min_resolution')) =
     (let max_size' = None;
          max_resolution' = None;
          allow_decompression_bombs' = True;
          max_gif_size' = Some (32 * 1048576);
          pre_import_options =
            (exclude_deleted', allow_decompression_bombs', min_size', max_size', max_gif_size',
             min_resolution', max_resolution');
          post_import_options = automatic_archive';
          presentation_options =
            (present_new_files', present_already_in_inbox_files', present_already_in_archive_files');
          new_serialisable_info =
            Tuple3 (pre_import_options, post_import_options, presentation_options)
      in Inr (Some (3, new_serialisable_info)))"
| "UpdateSerialisableInfo_2 other = Inl ValueError"

fun UpdateSerialisableInfo_3 :: "serialisable_info \<Rightarrow> exn + (int \<times> serialisable_info) option" where
  "UpdateSerialisableInfo_3
     (Tuple3 ((exclude_deleted', allow_decompression_bombs', min_size', max_size', max_gif_size',
               min_resolution', max_resolution'), post_import_options, presentation_options)) =
     (let automatic_archive' = post_import_options;
          do_not_check_known_urls_before_importing' = False;
          do_not_check_hashes_before_importing' = False;
          associate_source_urls' = True;
          pre_import_options =
            (exclude_deleted', do_not_check_known_urls_before_importing',
             do_not_check_hashes_before_importing', allow_decompression_bombs',
             min_size', max_size', max_gif_size', min_resolution', max_resolution');
          post_import_options = (automatic_archive', associate_source_urls');
          new_serialisable_info =
            Tuple4 (pre_import_options, post_import_options, presentation_options)
      in Inr (Some (4, new_serialisable_info)))"
| "UpdateSerialisableInfo_3 other = Inl ValueError"

fun UpdateSerialisableInfo_4 :: "serialisable_info \<Rightarrow> exn + (int \<times> serialisable_info) option" where
  "UpdateSerialisableInfo_4
     (Tuple4 (pre_import_options, (automatic_archive', associate_source_urls'),
              presentation_options)) =
     (let associate_primary_urls' = True;
          post_import_options = (automatic_archive', associate_primary_urls', associate_source_urls');
          new_serialisable_info =
            Tuple5 (pre_import_options, post_import_options, presentation_options)
      in Inr (Some (5, new_serialisable_info)))"
| "UpdateSerialisableInfo_4 (Tuple3 t) = Inl TypeError"
| "UpdateSerialisableInfo_4 other = Inl ValueError"

definition UpdateSerialisableInfo ::
  "int \<Rightarrow> serialisable_info \<Rightarrow> exn + (int \<times> serialisable_info) option" where
  "UpdateSerialisableInfo version old_serialisable_info =
     (if version = 1 then UpdateSerialisableInfo_1 old_serialisable_info
      else if version = 2 then UpdateSerialisableInfo_2 old_serialisable_info
      else if version = 3 then UpdateSerialisableInfo_3 old_serialisable_info
      else if version = 4 then UpdateSerialisableInfo_4 old_serialisable_info
      else Inr None)"

subsection \<open>Validation\<close>

text \<open>
  \<open>FileImportOptions.CheckFileIsValid\<close>: five \<open>if\<close> statements in a row, each raising
  a \<open>FileSizeException\<close> with its own message or falling through to the next.
\<close>

definition CheckFileIsValid ::
  "HC \<Rightarrow> HydrusData \<Rightarrow> FileImportOptions \<Rightarrow> int \<Rightarrow> mime \<Rightarrow> int option \<Rightarrow> int option
     \<Rightarrow> exn + unit" where
  "CheckFileIsValid hc hdata self sz m width height =
     (and_then
        (case min_size self of
           None \<Rightarrow> Inr ()
         | Some lim \<Rightarrow>
             if sz < lim
             then Inl (FileSizeException
                    (''File was '' @ ToHumanBytes hdata sz @ '' but the lower limit is ''
                       @ ToHumanBytes hdata lim @ ''.''))
             else Inr ())
     (and_then
        (case max_size self of
           None \<Rightarrow> Inr ()
         | Some lim \<Rightarrow>
             if sz > lim
             then Inl (FileSizeException
                    (''File was '' @ ToHumanBytes hdata sz @ '' but the upper limit is ''
                       @ ToHumanBytes hdata lim @ ''.''))
             else Inr ())
     (and_then
        (if m = IMAGE_GIF hc
         then (case max_gif_size self of
                 None \<Rightarrow> Inr ()
               | Some lim \<Rightarrow>
                   if sz > lim
                   then Inl (FileSizeException
                          (''File was '' @ ToHumanBytes hdata sz
                             @ '' but the upper limit for gifs is '' @ ToHumanBytes hdata lim @ ''.''))
                   else Inr ())
         else Inr ())
     (and_then
        (case min_resolution self of
           None \<Rightarrow> Inr ()
         | Some (min_width, min_height) \<Rightarrow>
             (let too_thin = (case width of None \<Rightarrow> False | Some w \<Rightarrow> w < min_width);
                  too_short = (case height of None \<Rightarrow> False | Some h \<Rightarrow> h < min_height)
              in if too_thin \<or> too_short
                 then Inl (FileSizeException
                        (''File had resolution ''
                           @ ConvertResolutionToPrettyString hdata (width, height)
                           @ '' but the lower limit is ''
                           @ ConvertResolutionToPrettyString hdata (Some min_width, Some min_height)))
                 else Inr ()))
        (case max_resolution self of
           None \<Rightarrow> Inr ()
         | Some (max_width, max_height) \<Rightarrow>
             (let too_wide = (case width of None \<Rightarrow> False | Some w \<Rightarrow> w > max_width);
                  too_tall = (case height of None \<Rightarrow> False | Some h \<Rightarrow> h > max_height)
              in if too_wide \<or> too_tall
                 then Inl (FileSizeException
                        (''File had resolution ''
                           @ ConvertResolutionToPrettyString hdata (width, height)
                           @ '' but the upper limit is ''
                           @ ConvertResolutionToPrettyString hdata (Some max_width, Some max_height)))
                 else Inr ()))))))"

text \<open>The accessors that the import job calls.\<close>

definition AllowsDecompressionBombs :: "FileImportOptions \<Rightarrow> bool" where
  "AllowsDecompressionBombs self = allow_decompression_bombs self"

definition AutomaticallyArchives :: "FileImportOptions \<Rightarrow> bool" where
  "AutomaticallyArchives self = automatic_archive self"

definition ExcludesDeleted :: "FileImportOptions \<Rightarrow> bool" where
  "ExcludesDeleted self = exclude_deleted self"

text \<open>
  Modelled from the spec: the loop that drives the migration chain belongs to the base class
  of \<open>HydrusSerialisable\<close>, which is not part of the two modules. The spec says that the
  chain is "applied repeatedly until version 5" to "any persisted instance below version
  5": while the version is below \<open>SERIALISABLE_VERSION\<close>, the version and the tuple are
  replaced by what \<open>_UpdateSerialisableInfo\<close> returns. Unpacking that result raises
  \<open>TypeError\<close> when it is \<open>None\<close>.
\<close>

function migrate :: "int \<Rightarrow> serialisable_info \<Rightarrow> exn + (int \<times> serialisable_info)" where
  "migrate version info =
     (if version < SERIALISABLE_VERSION
      then (case UpdateSerialisableInfo version info of
              Inl e \<Rightarrow> Inl e
            | Inr None \<Rightarrow> Inl TypeError
            | Inr (Some (version', info')) \<Rightarrow> migrate version' info')
      else Inr (version, info))"
  by pat_completeness auto
termination
proof (relation "measure (\<lambda>(version, info). nat (SERIALISABLE_VERSION - version))")
  show "wf (measure (\<lambda>(version, info). nat (SERIALISABLE_VERSION - version)))"
    by simp
next
  fix version :: int and info x2 x2a x y
  assume below: "version < SERIALISABLE_VERSION"
    and step: "UpdateSerialisableInfo version info = Inr x2" "x2 = Some x2a" "(x, y) = x2a"
  from step have "x = version + 1"
    by (cases info) (auto simp: UpdateSerialisableInfo_def Let_def split: if_splits prod.splits)
  with below show "((x, y), version, info)
      \<in> measure (\<lambda>(version, info). nat (SERIALISABLE_VERSION - version))"
    by simp
qed

section \<open>FileImportStatus\<close>

text \<open>
  Modelled from the spec: the status constants of \<open>ClientConstants\<close> are not part of the
  two modules. The spec gives the five codes Unknown, New, AlreadyPresent,
  PreviouslyDeleted and Vetoed; the modules name \<open>STATUS_UNKNOWN\<close>,
  \<open>STATUS_SUCCESSFUL_BUT_REDUNDANT\<close> (already present), \<open>STATUS_DELETED\<close> and
  \<open>STATUS_VETOED\<close>.
\<close>

datatype status_code =
    STATUS_UNKNOWN
  | STATUS_SUCCESSFUL_AND_NEW
  | STATUS_SUCCESSFUL_BUT_REDUNDANT
  | STATUS_DELETED
  | STATUS_VETOED

record FileImportStatus =
  status :: status_code
  hash :: "bytes option"
  mime :: "mime option"
  "note" :: string

text \<open>\<open>FileImportStatus.__init__\<close>; its callers pass all four arguments here.\<close>

definition FileImportStatus_init ::
  "status_code \<Rightarrow> bytes option \<Rightarrow> mime option \<Rightarrow> string \<Rightarrow> FileImportStatus" where
  "FileImportStatus_init status' hash' mime' note' =
     \<lparr> status = status', hash = hash', mime = mime', note = note' \<rparr>"

definition AlreadyInDB :: "FileImportStatus \<Rightarrow> bool" where
  "AlreadyInDB self = (status self = STATUS_SUCCESSFUL_BUT_REDUNDANT)"

definition Duplicate :: "FileImportStatus \<Rightarrow> FileImportStatus" where
  "Duplicate self = FileImportStatus_init (status self) (hash self) (mime self) (note self)"

definition ShouldImport :: "FileImportStatus \<Rightarrow> FileImportOptions \<Rightarrow> bool" where
  "ShouldImport self file_import_options =
     (if status self = STATUS_UNKNOWN then True
      else if status self = STATUS_DELETED \<and> \<not> ExcludesDeleted file_import_options then True
      else False)"

definition STATICGetUnknownStatus :: FileImportStatus where
  "STATICGetUnknownStatus = FileImportStatus_init STATUS_UNKNOWN None None []"

section \<open>The import job and its collaborators\<close>

type_synonym file_info =
  "int \<times> mime \<times> int option \<times> int option \<times> int option \<times> int option \<times> bool \<times> int option"

type_synonym extra_hashes = "bytes \<times> bytes \<times> bytes"

record FileImportJob =
  temp_path :: string
  file_import_options :: FileImportOptions
  pre_import_file_status :: FileImportStatus
  post_import_file_status :: FileImportStatus
  file_info :: "file_info option"
  thumbnail_bytes :: "bytes option"
  phashes :: "bytes list option"
  extra_hashes :: "extra_hashes option"
  file_modified_timestamp :: "int option"

text \<open>
  The content update that \<open>PubsubContentUpdates\<close> builds: a dictionary from a service key
  to a list of updates, each with a content type, an action and a set of hashes.
\<close>

datatype service_key = COMBINED_LOCAL_FILE_SERVICE_KEY
datatype content_type = CONTENT_TYPE_FILES
datatype content_action = CONTENT_UPDATE_ARCHIVE
datatype content_update = ContentUpdate content_type content_action "bytes option set"

type_synonym service_keys_to_content_updates = "(service_key \<times> content_update list) list"

text \<open>
  The functions of other modules that the job calls are parameters. Each returns its
  value or the exception it raises, as a function of its arguments: within one run of the
  job every one of them is called at most once, so nothing is lost by leaving out a state
  of the outside world. The thumbnail renderer is called under \<open>except Exception\<close>,
  where only the text of the exception is used, so its failure is that text. The two
  settings the job reads from the controller's options are plain values.
\<close>

record collaborators =
  HydrusImageHandling_ConvertToPNGIfBMP :: "string \<Rightarrow> exn + unit"
  HydrusFileHandling_GetHashFromPath :: "string \<Rightarrow> exn + bytes"
  controller_Read_hash_status :: "bytes \<Rightarrow> exn + FileImportStatus"
  client_files_manager_GetFilePath :: "bytes \<Rightarrow> mime \<Rightarrow> exn + string"
  HydrusFileHandling_GetMime :: "string \<Rightarrow> exn + mime"
  HydrusImageHandling_IsDecompressionBomb :: "string \<Rightarrow> exn + bool"
  HydrusFileHandling_GetFileInfo :: "string \<Rightarrow> mime \<Rightarrow> exn + file_info"
  thumbnail_dimensions :: resolution
  HydrusImageHandling_GetThumbnailResolution ::
    "int option \<times> int option \<Rightarrow> resolution \<Rightarrow> exn + resolution"
  video_thumbnail_percentage_in :: int
  HydrusFileHandling_GenerateThumbnailBytes ::
    "string \<Rightarrow> resolution \<Rightarrow> mime \<Rightarrow> int option \<Rightarrow> int option \<Rightarrow> int \<Rightarrow> string + bytes"
  ClientImageHandling_GenerateShapePerceptualHashes :: "string \<Rightarrow> mime \<Rightarrow> exn + bytes list"
  HydrusFileHandling_GetExtraHashesFromPath :: "string \<Rightarrow> exn + extra_hashes"
  HydrusFileHandling_GetFileModifiedTimestamp :: "string \<Rightarrow> exn + int"
  client_files_manager_AddFile ::
    "bytes option \<Rightarrow> mime option \<Rightarrow> string \<Rightarrow> bytes option \<Rightarrow> exn + unit"
  controller_WriteSynchronous_import_file :: "FileImportJob \<Rightarrow> exn + FileImportStatus"
  controller_Write_content_updates :: "service_keys_to_content_updates \<Rightarrow> exn + unit"

text \<open>
  Every call that leaves the module is recorded, in order, with its arguments: the trace
  is what the outside world sees of a run.
\<close>

datatype event =
    Call_ConvertToPNGIfBMP string
  | Call_GetHashFromPath string
  | Call_Read_hash_status bytes
  | Call_GetFilePath bytes mime
  | Call_GetMime string
  | Call_IsDecompressionBomb string
  | Call_GetFileInfo string mime
  | Call_GetThumbnailResolution "int option \<times> int option" resolution
  | Call_GenerateThumbnailBytes string resolution mime "int option" "int option" int
  | Call_GenerateShapePerceptualHashes string mime
  | Call_GetExtraHashesFromPath string
  | Call_GetFileModifiedTimestamp string
  | Call_AddFile "bytes option" "mime option" string "bytes option"
  | Call_WriteSynchronous_import_file FileImportJob
  | Call_Write_content_updates service_keys_to_content_updates
  | Call_status_hook string

section \<open>Running the job\<close>

text \<open>
  A method of the job runs on the job object and the trace, and either returns a value or
  raises; in both cases it leaves the object and the trace as they are at that point.
\<close>

type_synonym run_state = "FileImportJob \<times> event list"

type_synonym 'a run = "run_state \<Rightarrow> (exn + 'a) \<times> run_state"

definition return_value :: "'a \<Rightarrow> 'a run" where
  "return_value x s = (Inr x, s)"

definition raise :: "exn \<Rightarrow> 'a run" where
  "raise e s = (Inl e, s)"

definition then_run :: "'a run \<Rightarrow> ('a \<Rightarrow> 'b run) \<Rightarrow> 'b run" where
  "then_run m f s = (case m s of (Inl e, s') \<Rightarrow> (Inl e, s') | (Inr x, s') \<Rightarrow> f x s')"

definition get_self :: "FileImportJob run" where
  "get_self s = (Inr (fst s), s)"

definition update_self :: "(FileImportJob \<Rightarrow> FileImportJob) \<Rightarrow> unit run" where
  "update_self f s = (Inr (), (f (fst s), snd s))"

text \<open>A call of a collaborator: the call is recorded and its outcome is the outcome here.\<close>

definition call :: "event \<Rightarrow> exn + 'a \<Rightarrow> 'a run" where
  "call ev outcome s = (outcome, (fst s, snd s @ [ev]))"

text \<open>\<open>if status_hook is not None: status_hook( text )\<close>\<close>

definition call_status_hook :: "bool \<Rightarrow> string \<Rightarrow> unit run" where
  "call_status_hook status_hook txt =
     (if status_hook then call (Call_status_hook txt) (Inr ()) else return_value ())"

subsection \<open>CheckFileImportStatus\<close>

text \<open>
  The module-level function works on a status and the store only. The probe is the one
  call under \<open>try\<close>; \<open>FileMissingException\<close> is caught, any other exception leaves
  the function.
\<close>

definition CheckFileImportStatus ::
  "collaborators \<Rightarrow> FileImportStatus \<Rightarrow> event list \<Rightarrow> (exn + FileImportStatus) \<times> event list" where
  "CheckFileImportStatus c file_import_status tr =
     (if AlreadyInDB file_import_status
      then (case hash file_import_status of
              None \<Rightarrow> (Inr file_import_status, tr)
            | Some hash' \<Rightarrow>
               (case mime file_import_status of
                  None \<Rightarrow> (Inr file_import_status, tr)
                | Some mime' \<Rightarrow>
                   (case client_files_manager_GetFilePath c hash' mime' of
                      Inl (FileMissingException msg) \<Rightarrow>
                        (let note' = ''The client believed this file was already in the db, but it was truly missing! Import will go ahead, in an attempt to fix the situation.''
                         in (Inr (FileImportStatus_init STATUS_UNKNOWN (Some hash') (Some mime') note'),
                             tr @ [Call_GetFilePath hash' mime']))
                    | Inl e \<Rightarrow> (Inl e, tr @ [Call_GetFilePath hash' mime'])
                    | Inr path \<Rightarrow> (Inr file_import_status, tr @ [Call_GetFilePath hash' mime']))))
      else (Inr file_import_status, tr))"

subsection \<open>FileImportJob\<close>

text \<open>
  The methods are those of the class with \<open>HG.file_import_report_mode\<close> off: the debug
  texts that the report mode shows are left out.
\<close>

definition FileImportJob_init :: "string \<Rightarrow> FileImportOptions \<Rightarrow> FileImportJob" where
  "FileImportJob_init temp_path' file_import_options' = \<lparr>
     temp_path = temp_path',
     file_import_options = file_import_options',
     pre_import_file_status = STATICGetUnknownStatus,
     post_import_file_status = STATICGetUnknownStatus,
     file_info = None,
     thumbnail_bytes = None,
     phashes = None,
     extra_hashes = None,
     file_modified_timestamp = None \<rparr>"

definition GetHash :: "FileImportJob \<Rightarrow> bytes option" where
  "GetHash self = hash (pre_import_file_status self)"

definition GetMime :: "FileImportJob \<Rightarrow> mime option" where
  "GetMime self = mime (pre_import_file_status self)"

definition CheckIsGoodToImport :: "HC \<Rightarrow> HydrusData \<Rightarrow> unit run" where
  "CheckIsGoodToImport hc hdata =
     then_run get_self (\<lambda>self.
       case file_info self of
         None \<Rightarrow> raise TypeError
       | Some (size', mime', width, height, duration, num_frames, has_audio, num_words) \<Rightarrow>
           (\<lambda>s. (CheckFileIsValid hc hdata (file_import_options self) size' mime' width height, s)))"

definition GeneratePreImportHashAndStatus :: "collaborators \<Rightarrow> bool \<Rightarrow> unit run" where
  "GeneratePreImportHashAndStatus c status_hook =
     then_run get_self (\<lambda>self.
     then_run (call (Call_ConvertToPNGIfBMP (temp_path self))
                 (HydrusImageHandling_ConvertToPNGIfBMP c (temp_path self))) (\<lambda>u.
     then_run (call_status_hook status_hook ''calculating hash'') (\<lambda>u.
     then_run (call (Call_GetHashFromPath (temp_path self))
                 (HydrusFileHandling_GetHashFromPath c (temp_path self))) (\<lambda>hash'.
     then_run (call_status_hook status_hook ''checking for file status'') (\<lambda>u.
     then_run (call (Call_Read_hash_status hash') (controller_Read_hash_status c hash')) (\<lambda>read_status.
     then_run (update_self (\<lambda>self.
                 self\<lparr>pre_import_file_status := read_status\<lparr>hash := Some hash'\<rparr>\<rparr>)) (\<lambda>u.
     then_run (\<lambda>s. case CheckFileImportStatus c (read_status\<lparr>hash := Some hash'\<rparr>) (snd s) of
                      (outcome, tr') \<Rightarrow> (outcome, (fst s, tr'))) (\<lambda>checked_status.
     update_self (\<lambda>self. self\<lparr>pre_import_file_status := checked_status\<rparr>)))))))))"

definition GenerateInfo :: "collaborators \<Rightarrow> HC \<Rightarrow> bool \<Rightarrow> unit run" where
  "GenerateInfo c hc status_hook =
     then_run get_self (\<lambda>self.
     then_run
       (case mime (pre_import_file_status self) of
          None \<Rightarrow>
            then_run (call_status_hook status_hook ''generating filetype'') (\<lambda>u.
            then_run (call (Call_GetMime (temp_path self))
                        (HydrusFileHandling_GetMime c (temp_path self))) (\<lambda>mime'.
            then_run (update_self (\<lambda>self.
                        self\<lparr>pre_import_file_status :=
                               (pre_import_file_status self)\<lparr>mime := Some mime'\<rparr>\<rparr>)) (\<lambda>u.
            return_value mime')))
        | Some mime' \<Rightarrow> return_value mime') (\<lambda>mime'.
     then_run
       (if mime' \<in> set (DECOMPRESSION_BOMB_IMAGES hc)
             \<and> \<not> AllowsDecompressionBombs (file_import_options self)
        then then_run (call (Call_IsDecompressionBomb (temp_path self))
                         (HydrusImageHandling_IsDecompressionBomb c (temp_path self))) (\<lambda>is_bomb.
             if is_bomb
             then raise (DecompressionBombException ''Image seems to be a Decompression Bomb!'')
             else return_value ())
        else return_value ()) (\<lambda>u.
     then_run (call_status_hook status_hook ''generating file metadata'') (\<lambda>u.
     then_run (call (Call_GetFileInfo (temp_path self) mime')
                 (HydrusFileHandling_GetFileInfo c (temp_path self) mime')) (\<lambda>info.
     then_run (update_self (\<lambda>self. self\<lparr>file_info := Some info\<rparr>)) (\<lambda>u.
     case info of (size', mime', width, height, duration, num_frames, has_audio, num_words) \<Rightarrow>
     then_run
       (if mime' \<in> set (MIMES_WITH_THUMBNAILS hc)
        then then_run (call_status_hook status_hook ''generating thumbnail'') (\<lambda>u.
             let bounding_dimensions = thumbnail_dimensions c in
             then_run (call (Call_GetThumbnailResolution (width, height) bounding_dimensions)
                         (HydrusImageHandling_GetThumbnailResolution c (width, height)
                            bounding_dimensions)) (\<lambda>target_resolution.
             let percentage_in = video_thumbnail_percentage_in c in
             then_run (call (Call_GenerateThumbnailBytes (temp_path self) target_resolution mime'
                               duration num_frames percentage_in)
                         (case HydrusFileHandling_GenerateThumbnailBytes c (temp_path self)
                                 target_resolution mime' duration num_frames percentage_in of
                            Inl e \<Rightarrow> Inl (DamagedOrUnusualFileException
                                           (''Could not render a thumbnail: '' @ e))
                          | Inr rendered \<Rightarrow> Inr rendered)) (\<lambda>rendered.
             update_self (\<lambda>self. self\<lparr>thumbnail_bytes := Some rendered\<rparr>))))
        else return_value ()) (\<lambda>u.
     then_run
       (if mime' \<in> set (MIMES_WE_CAN_PHASH hc)
        then then_run (call_status_hook status_hook ''generating similar files metadata'') (\<lambda>u.
             then_run (call (Call_GenerateShapePerceptualHashes (temp_path self) mime')
                         (ClientImageHandling_GenerateShapePerceptualHashes c (temp_path self)
                            mime')) (\<lambda>generated.
             update_self (\<lambda>self. self\<lparr>phashes := Some generated\<rparr>)))
        else return_value ()) (\<lambda>u.
     then_run (call_status_hook status_hook ''generating additional hashes'') (\<lambda>u.
     then_run (call (Call_GetExtraHashesFromPath (temp_path self))
                 (HydrusFileHandling_GetExtraHashesFromPath c (temp_path self))) (\<lambda>extra.
     then_run (update_self (\<lambda>self. self\<lparr>extra_hashes := Some extra\<rparr>)) (\<lambda>u.
     then_run (call (Call_GetFileModifiedTimestamp (temp_path self))
                 (HydrusFileHandling_GetFileModifiedTimestamp c (temp_path self))) (\<lambda>stamp.
     update_self (\<lambda>self. self\<lparr>file_modified_timestamp := Some stamp\<rparr>)))))))))))))"

definition PubsubContentUpdates :: "collaborators \<Rightarrow> unit run" where
  "PubsubContentUpdates c =
     then_run get_self (\<lambda>self.
       if AlreadyInDB (post_import_file_status self)
            \<and> AutomaticallyArchives (file_import_options self)
       then (let hashes = {GetHash self};
                 service_keys_to_content_updates =
                   [(COMBINED_LOCAL_FILE_SERVICE_KEY,
                     [ContentUpdate CONTENT_TYPE_FILES CONTENT_UPDATE_ARCHIVE hashes])]
             in call (Call_Write_content_updates service_keys_to_content_updates)
                  (controller_Write_content_updates c service_keys_to_content_updates))
       else return_value ())"

definition DoWork :: "collaborators \<Rightarrow> HC \<Rightarrow> HydrusData \<Rightarrow> bool \<Rightarrow> FileImportStatus run" where
  "DoWork c hc hdata status_hook =
     then_run (GeneratePreImportHashAndStatus c status_hook) (\<lambda>u.
     then_run get_self (\<lambda>self.
     then_run
       (if ShouldImport (pre_import_file_status self) (file_import_options self)
        then then_run (GenerateInfo c hc status_hook) (\<lambda>u.
             (\<lambda>s. case CheckIsGoodToImport hc hdata s of
                     (Inl (FileSizeException e), s') \<Rightarrow>
                       (let not_ok_file_import_status =
                              (Duplicate (pre_import_file_status (fst s')))
                                \<lparr>status := STATUS_VETOED, note := e\<rparr>
                        in update_self (\<lambda>self.
                             self\<lparr>post_import_file_status := not_ok_file_import_status\<rparr>) s')
                   | (Inl e, s') \<Rightarrow> (Inl e, s')
                   | (Inr ok, s') \<Rightarrow>
                       then_run get_self (\<lambda>self.
                       let hash' = hash (pre_import_file_status self);
                           mime' = mime (pre_import_file_status self) in
                       then_run (call_status_hook status_hook ''copying file into file storage'') (\<lambda>u.
                       then_run (call (Call_AddFile hash' mime' (temp_path self) (thumbnail_bytes self))
                                   (client_files_manager_AddFile c hash' mime' (temp_path self)
                                      (thumbnail_bytes self))) (\<lambda>u.
                       then_run (call_status_hook status_hook ''importing to database'') (\<lambda>u.
                       then_run (call (Call_WriteSynchronous_import_file self)
                                   (controller_WriteSynchronous_import_file c self)) (\<lambda>written.
                       update_self (\<lambda>self. self\<lparr>post_import_file_status := written\<rparr>)))))) s'))
        else update_self (\<lambda>self.
               self\<lparr>post_import_file_status := Duplicate (pre_import_file_status self)\<rparr>)) (\<lambda>u.
     then_run (PubsubContentUpdates c) (\<lambda>u.
     then_run get_self (\<lambda>self.
     return_value (post_import_file_status self))))))"

section \<open>What a run shows to the outside\<close>

text \<open>
  Three classes of calls: the extraction of metadata from the file, the two commit
  operations (the store's add and the import through the write port), and the content
  updates sent to the write port.
\<close>

fun is_metadata_extraction :: "event \<Rightarrow> bool" where
  "is_metadata_extraction (Call_GetMime p) = True"
| "is_metadata_extraction (Call_IsDecompressionBomb p) = True"
| "is_metadata_extraction (Call_GetFileInfo p m) = True"
| "is_metadata_extraction (Call_GetThumbnailResolution r b) = True"
| "is_metadata_extraction (Call_GenerateThumbnailBytes p r m d n q) = True"
| "is_metadata_extraction (Call_GenerateShapePerceptualHashes p m) = True"
| "is_metadata_extraction (Call_GetExtraHashesFromPath p) = True"
| "is_metadata_extraction (Call_GetFileModifiedTimestamp p) = True"
| "is_metadata_extraction ev = False"

fun is_commit_operation :: "event \<Rightarrow> bool" where
  "is_commit_operation (Call_AddFile h m p t) = True"
| "is_commit_operation (Call_WriteSynchronous_import_file j) = True"
| "is_commit_operation ev = False"

fun is_content_update :: "event \<Rightarrow> bool" where
  "is_content_update (Call_Write_content_updates u) = True"
| "is_content_update ev = False"

section \<open>The validation order of the specification\<close>

text \<open>
  The five checks in the order in which the specification lists them, each standing alone:
  an entry is \<open>None\<close> when its check passes or its limit is not set, and the message of
  its violation otherwise. \<open>first_failure\<close> raises the first message of such a list.
\<close>

definition ordered_checks ::
  "HC \<Rightarrow> HydrusData \<Rightarrow> FileImportOptions \<Rightarrow> int \<Rightarrow> mime \<Rightarrow> int option \<Rightarrow> int option
     \<Rightarrow> string option list" where
  "ordered_checks hc hdata self sz m width height =
     [ (case min_size self of
          None \<Rightarrow> None
        | Some lim \<Rightarrow>
            if sz < lim
            then Some (''File was '' @ ToHumanBytes hdata sz @ '' but the lower limit is ''
                         @ ToHumanBytes hdata lim @ ''.'')
            else None),
       (case max_size self of
          None \<Rightarrow> None
        | Some lim \<Rightarrow>
            if sz > lim
            then Some (''File was '' @ ToHumanBytes hdata sz @ '' but the upper limit is ''
                         @ ToHumanBytes hdata lim @ ''.'')
            else None),
       (case max_gif_size self of
          None \<Rightarrow> None
        | Some lim \<Rightarrow>
            if m = IMAGE_GIF hc \<and> sz > lim
            then Some (''File was '' @ ToHumanBytes hdata sz @ '' but the upper limit for gifs is ''
                         @ ToHumanBytes hdata lim @ ''.'')
            else None),
       (case min_resolution self of
          None \<Rightarrow> None
        | Some (min_width, min_height) \<Rightarrow>
            if (case width of None \<Rightarrow> False | Some w \<Rightarrow> w < min_width)
                 \<or> (case height of None \<Rightarrow> False | Some h \<Rightarrow> h < min_height)
            then Some (''File had resolution ''
                         @ ConvertResolutionToPrettyString hdata (width, height)
                         @ '' but the lower limit is ''
                         @ ConvertResolutionToPrettyString hdata (Some min_width, Some min_height))
            else None),
       (case max_resolution self of
          None \<Rightarrow> None
        | Some (max_width, max_height) \<Rightarrow>
            if (case width of None \<Rightarrow> False | Some w \<Rightarrow> w > max_width)
                 \<or> (case height of None \<Rightarrow> False | Some h \<Rightarrow> h > max_height)
            then Some (''File had resolution ''
                         @ ConvertResolutionToPrettyString hdata (width, height)
                         @ '' but the upper limit is ''
                         @ ConvertResolutionToPrettyString hdata (Some max_width, Some max_height))
            else None) ]"

fun first_failure :: "string option list \<Rightarrow> exn + unit" where
  "first_failure [] = Inr ()"
| "first_failure (None # later) = first_failure later"
| "first_failure (Some message # later) = Inl (FileSizeException message)"

section \<open>Invariants of a run\<close>

text \<open>
  \<open>run_from s m\<close> is the method \<open>m\<close> run from the state \<open>s\<close>. A predicate on
  states is stable under a method when the method, however it ends, leaves it true. The
  predicates used below fix the calls of one class that the trace holds and some fields of
  the job.
\<close>

definition run_from :: "run_state \<Rightarrow> 'a run \<Rightarrow> (exn + 'a) \<times> run_state" where
  "run_from s m = m s"

definition stable :: "(run_state \<Rightarrow> bool) \<Rightarrow> 'a run \<Rightarrow> bool" where
  "stable I m = (\<forall>s. I s \<longrightarrow> I (snd (m s)))"

definition frame ::
  "(event \<Rightarrow> bool) \<Rightarrow> event list \<Rightarrow> (FileImportJob \<Rightarrow> bool) \<Rightarrow> run_state \<Rightarrow> bool" where
  "frame K F J s = (filter K (snd s) = F \<and> J (fst s))"

definition job_frame :: "FileImportOptions \<Rightarrow> string \<Rightarrow> FileImportJob \<Rightarrow> bool" where
  "job_frame opts p j = (file_import_options j = opts \<and> temp_path j = p)"

definition identified :: "bytes option \<Rightarrow> FileImportJob \<Rightarrow> bool" where
  "identified h j = (hash (pre_import_file_status j) = h)"

section \<open>Example collaborators\<close>

text \<open>
  A concrete setting in which the job can be run: a file of 600 bytes at
  \<open>/tmp/import\<close> with digest \<open>[1, 2, 3]\<close>, sniffed as media type 2, 10 by 10 pixels,
  which the pixel scan reports as a decompression bomb; a store that holds every file it
  is asked for; a read port that answers every lookup with the status \<open>known\<close>; a write
  port that imports every file as new.
\<close>

definition example_HC :: HC where
  "example_HC = \<lparr> IMAGE_GIF = 3, DECOMPRESSION_BOMB_IMAGES = [1, 2],
     MIMES_WITH_THUMBNAILS = [1, 2, 3], MIMES_WE_CAN_PHASH = [1, 2] \<rparr>"

definition example_HydrusData :: HydrusData where
  "example_HydrusData = \<lparr>
     ToHumanBytes =
       (\<lambda>n. if n = 600 then ''600B'' else if n = 500 then ''500B'' else ''some bytes''),
     ConvertResolutionToPrettyString = (\<lambda>r. ''some resolution'') \<rparr>"

definition example_collaborators :: "FileImportStatus \<Rightarrow> collaborators" where
  "example_collaborators known = \<lparr>
     HydrusImageHandling_ConvertToPNGIfBMP = (\<lambda>path. Inr ()),
     HydrusFileHandling_GetHashFromPath = (\<lambda>path. Inr [1, 2, 3]),
     controller_Read_hash_status = (\<lambda>h. Inr known),
     client_files_manager_GetFilePath = (\<lambda>h m. Inr ''client_files/f01/010203.png''),
     HydrusFileHandling_GetMime = (\<lambda>path. Inr 2),
     HydrusImageHandling_IsDecompressionBomb = (\<lambda>path. Inr True),
     HydrusFileHandling_GetFileInfo =
       (\<lambda>path m. Inr (600, m, Some 10, Some 10, None, None, False, None)),
     thumbnail_dimensions = (200, 200),
     HydrusImageHandling_GetThumbnailResolution = (\<lambda>r b. Inr b),
     video_thumbnail_percentage_in = 35,
     HydrusFileHandling_GenerateThumbnailBytes = (\<lambda>path r m d n q. Inr [255, 216]),
     ClientImageHandling_GenerateShapePerceptualHashes = (\<lambda>path m. Inr [[7]]),
     HydrusFileHandling_GetExtraHashesFromPath = (\<lambda>path. Inr ([4], [5], [6])),
     HydrusFileHandling_GetFileModifiedTimestamp = (\<lambda>path. Inr 1600000000),
     client_files_manager_AddFile = (\<lambda>h m path thumbnail. Inr ()),
     controller_WriteSynchronous_import_file =
       (\<lambda>job. Inr (FileImportStatus_init STATUS_SUCCESSFUL_AND_NEW (GetHash job) (GetMime job) [])),
     controller_Write_content_updates = (\<lambda>updates. Inr ()) \<rparr>"

definition example_job :: "FileImportOptions \<Rightarrow> FileImportJob" where
  "example_job opts = FileImportJob_init ''/tmp/import'' opts"

definition example_already_present :: FileImportStatus where
  "example_already_present =
     FileImportStatus_init STATUS_SUCCESSFUL_BUT_REDUNDANT (Some [1, 2, 3]) (Some 2)
       ''file recognised''"

definition example_deleted :: FileImportStatus where
  "example_deleted = FileImportStatus_init STATUS_DELETED (Some [1, 2, 3]) (Some 2) []"

section \<open>Auxiliary facts\<close>

lemmas run_defs = then_run_def return_value_def raise_def get_self_def update_self_def call_def
  call_status_hook_def

lemmas model_defs = run_defs GeneratePreImportHashAndStatus_def GenerateInfo_def
  CheckIsGoodToImport_def CheckFileIsValid_def CheckFileImportStatus_def DoWork_def
  PubsubContentUpdates_def ShouldImport_def AlreadyInDB_def Duplicate_def ExcludesDeleted_def
  AllowsDecompressionBombs_def AutomaticallyArchives_def GetHash_def GetMime_def and_then_def
  Let_def

lemmas example_defs = example_HC_def example_HydrusData_def example_collaborators_def
  example_job_def example_already_present_def example_deleted_def
  FileImportJob_init_def FileImportOptions_init_def STATICGetUnknownStatus_def
  FileImportStatus_init_def

subsection \<open>Stability\<close>

lemma stable_on: "run_from s m = (r, s') \<Longrightarrow> stable I m \<Longrightarrow> I s \<Longrightarrow> I s'"
  unfolding stable_def run_from_def by (metis snd_conv)

lemma stable_return: "stable I (return_value x)"
  by (simp add: stable_def return_value_def)

lemma stable_raise: "stable I (raise e)"
  by (simp add: stable_def raise_def)

lemma stable_get_self: "stable I get_self"
  by (simp add: stable_def get_self_def)

lemma stable_then: "stable I m \<Longrightarrow> (\<And>x. stable I (f x)) \<Longrightarrow> stable I (then_run m f)"
  by (auto simp: stable_def then_run_def split: prod.splits sum.splits)
     (metis snd_conv)+

lemma stable_if: "stable I a \<Longrightarrow> stable I b \<Longrightarrow> stable I (if c then a else b)"
  by simp

lemma stable_case_option:
  "stable I a \<Longrightarrow> (\<And>x. stable I (b x)) \<Longrightarrow> stable I (case v of None \<Rightarrow> a | Some x \<Rightarrow> b x)"
  by (cases v) simp_all

lemma stable_case_prod: "(\<And>a b. stable I (f a b)) \<Longrightarrow> stable I (case v of (a, b) \<Rightarrow> f a b)"
  by (cases v) simp

lemma stable_case_outcome:
  assumes "\<And>s. snd (m s) = s" and "\<And>r. stable I (g r)"
  shows "stable I (\<lambda>s. case m s of (r, s') \<Rightarrow> g r s')"
  using assms unfolding stable_def
  by (metis (mono_tags, lifting) case_prod_beta)

lemma frame_call: "\<not> K ev \<Longrightarrow> stable (frame K F J) (call ev r)"
  by (simp add: stable_def frame_def call_def)

lemma frame_hook: "\<not> K (Call_status_hook txt) \<Longrightarrow> stable (frame K F J) (call_status_hook b txt)"
  by (simp add: call_status_hook_def frame_call stable_return)

lemma frame_update: "(\<And>j. J j \<Longrightarrow> J (f j)) \<Longrightarrow> stable (frame K F J) (update_self f)"
  by (simp add: stable_def frame_def update_self_def)

lemma frame_CheckFileImportStatus:
  "(\<And>h m. \<not> K (Call_GetFilePath h m)) \<Longrightarrow>
   stable (frame K F J) (\<lambda>s. case CheckFileImportStatus c st (snd s) of
                      (outcome, tr') \<Rightarrow> (outcome, (fst s, tr')))"
  by (auto simp: stable_def frame_def CheckFileImportStatus_def Let_def
      split: option.splits sum.splits exn.splits)

lemma frame_GeneratePreImportHashAndStatus:
  assumes "\<And>x. \<not> K (Call_ConvertToPNGIfBMP x)" "\<And>x. \<not> K (Call_GetHashFromPath x)"
    "\<And>x. \<not> K (Call_Read_hash_status x)" "\<And>h m. \<not> K (Call_GetFilePath h m)"
    "\<And>x. \<not> K (Call_status_hook x)"
  shows "stable (frame K F (job_frame opts p)) (GeneratePreImportHashAndStatus c status_hook)"
  unfolding GeneratePreImportHashAndStatus_def
  by (intro stable_then stable_get_self frame_call frame_hook frame_update
        frame_CheckFileImportStatus assms)
     (simp_all add: job_frame_def)

lemma frame_GenerateInfo:
  assumes "\<And>ev. is_metadata_extraction ev \<Longrightarrow> \<not> K ev" "\<And>x. \<not> K (Call_status_hook x)"
  shows "stable (frame K F (\<lambda>j. job_frame opts p j \<and> identified h j))
           (GenerateInfo c hc status_hook)"
  unfolding GenerateInfo_def Let_def
  by (intro stable_then stable_get_self stable_return stable_raise stable_if stable_case_option
        stable_case_prod frame_call frame_hook frame_update assms)
     (simp_all add: job_frame_def identified_def)

lemma content_update_not_extraction: "is_metadata_extraction ev \<Longrightarrow> \<not> is_content_update ev"
  by (cases ev) simp_all

subsection \<open>The stages of a run\<close>

lemma then_runE:
  assumes "run_from s (then_run m f) = (Inr y, s')"
  obtains x s1 where "run_from s m = (Inr x, s1)" and "run_from s1 (f x) = (Inr y, s')"
  using assms by (auto simp: run_from_def then_run_def split: prod.splits sum.splits)

lemma Duplicate_same: "Duplicate (st :: FileImportStatus) = st"
  by (simp add: Duplicate_def FileImportStatus_init_def)

lemma CheckIsGoodToImport_state: "snd (CheckIsGoodToImport hc hdata s) = s"
  by (simp add: CheckIsGoodToImport_def run_defs split: option.splits prod.splits)

lemma and_then_Inr: "and_then (Inr u) b = b"
  by (simp add: and_then_def)

lemma and_then_Inl: "and_then (Inl e) b = Inl e"
  by (simp add: and_then_def)

lemma and_then_outcome:
  assumes "(\<exists>msg. a = Inl (FileSizeException msg)) \<or> a = Inr ()"
    and "(\<exists>msg. b = Inl (FileSizeException msg)) \<or> b = Inr ()"
  shows "(\<exists>msg. and_then a b = Inl (FileSizeException msg)) \<or> and_then a b = Inr ()"
  using assms by (auto simp: and_then_def)

lemma CheckFileIsValid_outcome:
  "(\<exists>msg. CheckFileIsValid hc hdata self sz m width height = Inl (FileSizeException msg))
     \<or> CheckFileIsValid hc hdata self sz m width height = Inr ()"
  unfolding CheckFileIsValid_def Let_def
  by (intro and_then_outcome) (simp_all split: option.splits prod.splits)

lemma CheckFileIsValid_raises_FileSizeException:
  assumes "CheckFileIsValid hc hdata self sz m width height = Inl e"
  shows "\<exists>msg. e = FileSizeException msg"
  using assms CheckFileIsValid_outcome[of hc hdata self sz m width height] by auto

lemma GeneratePreImportHashAndStatus_identity:
  assumes "GeneratePreImportHashAndStatus c status_hook (job, tr) = (Inr u, s1)"
  shows "\<exists>h. HydrusFileHandling_GetHashFromPath c (temp_path job) = Inr h
            \<and> hash (pre_import_file_status (fst s1)) = Some h"
  using assms
  by (auto simp: GeneratePreImportHashAndStatus_def run_defs CheckFileImportStatus_def
        FileImportStatus_init_def Let_def
      split: sum.splits prod.splits if_splits option.splits exn.splits)

lemma PubsubContentUpdates_result:
  assumes "PubsubContentUpdates c s = (Inr u, s')"
  shows "fst s' = fst s \<and>
     snd s' = snd s @
       (if AlreadyInDB (post_import_file_status (fst s))
             \<and> AutomaticallyArchives (file_import_options (fst s))
        then [Call_Write_content_updates
               [(COMBINED_LOCAL_FILE_SERVICE_KEY,
                 [ContentUpdate CONTENT_TYPE_FILES CONTENT_UPDATE_ARCHIVE {GetHash (fst s)}])]]
        else [])"
  using assms
  by (auto simp: PubsubContentUpdates_def run_defs Let_def split: if_splits)

lemma migrate_reaches_current:
  "migrate version info = Inr (version', info') \<Longrightarrow> \<not> version' < SERIALISABLE_VERSION"
proof (induction version info rule: migrate.induct)
  case (1 version info)
  show ?case
  proof (cases "version < SERIALISABLE_VERSION")
    case True
    with 1 show ?thesis
      by (auto split: sum.splits option.splits prod.splits)
  next
    case False
    with "1.prems" show ?thesis by simp
  qed
qed

section \<open>Schema migration and serialisation\<close>

text \<open>
  Claim C2. The version-1 tuple (automatic_archive = true, exclude_deleted = true,
  min_size = 100, min_resolution = (10, 10)) goes through the four steps of the chain, from
  version 1 to 2, 3, 4 and 5, and loading the version-5 tuple into any options object gives
  automatic_archive = true, exclude_deleted = true, min_size = 100, min_resolution =
  (10, 10), allow_decompression_bombs = true, max_gif_size = 32 * 1048576, both url
  associations true, and the presentation flags (true, false, false); the fields that no
  step names are the defaults of the steps (no maximum size or resolution, both checks
  before importing left on).
\<close>

theorem migration_version_1_to_5:
  "UpdateSerialisableInfo 1 (Tuple1 (True, True, Some 100, Some (10, 10))) =
     Inr (Some (2, Tuple2 (True, True, True, False, False, Some 100, Some (10, 10))))
   \<and> UpdateSerialisableInfo 2 (Tuple2 (True, True, True, False, False, Some 100, Some (10, 10))) =
     Inr (Some (3, Tuple3 ((True, True, Some 100, None, Some (32 * 1048576), Some (10, 10), None),
                           True, (True, False, False))))
   \<and> UpdateSerialisableInfo 3
       (Tuple3 ((True, True, Some 100, None, Some (32 * 1048576), Some (10, 10), None),
                True, (True, False, False))) =
     Inr (Some (4, Tuple4 ((True, False, False, True, Some 100, None, Some (32 * 1048576),
                            Some (10, 10), None),
                           (True, True), (True, False, False))))
   \<and> UpdateSerialisableInfo 4
       (Tuple4 ((True, False, False, True, Some 100, None, Some (32 * 1048576),
                 Some (10, 10), None),
                (True, True), (True, False, False))) =
     Inr (Some (5, Tuple5 ((True, False, False, True, Some 100, None, Some (32 * 1048576),
                            Some (10, 10), None),
                           (True, True, True), (True, False, False))))
   \<and> InitialiseFromSerialisableInfo self
       (Tuple5 ((True, False, False, True, Some 100, None, Some (32 * 1048576),
                 Some (10, 10), None),
                (True, True, True), (True, False, False))) =
     (Inr (),
      \<lparr> exclude_deleted = True,
        do_not_check_known_urls_before_importing = False,
        do_not_check_hashes_before_importing = False,
        allow_decompression_bombs = True,
        min_size = Some 100,
        max_size = None,
        max_gif_size = Some (32 * 1048576),
        min_resolution = Some (10, 10),
        max_resolution = None,
        automatic_archive = True,
        associate_primary_urls = True,
        associate_source_urls = True,
        present_new_files = True,
        present_already_in_inbox_files = False,
        present_already_in_archive_files = False \<rparr>)"
  by (simp add: UpdateSerialisableInfo_def)

text \<open>
  Claim C9. Loading the tuple that \<open>_GetSerialisableInfo\<close> produces from an options
  object restores that object, whatever the object that loads it held before: all fifteen
  fields are those of the serialised object, and the load does not raise.
\<close>

theorem serialisation_round_trip:
  "InitialiseFromSerialisableInfo other (GetSerialisableInfo self) = (Inr (), self)"
  by (simp add: GetSerialisableInfo_def)

text \<open>
  Claim C8, as the claim states it: the migration step applied to an instance that is
  already at version 5 returns the version-5 data unchanged. The step has a branch for each
  of the versions 1 to 4 only; at version 5 it reaches its end and returns \<open>None\<close>,
  here for the serialised default options.
\<close>

theorem migration_step_at_version_5_counterexample:
  "UpdateSerialisableInfo 5 (GetSerialisableInfo FileImportOptions_init) = Inr None
   \<and> UpdateSerialisableInfo 5 (GetSerialisableInfo FileImportOptions_init) \<noteq>
       Inr (Some (5, GetSerialisableInfo FileImportOptions_init))"
  by (simp add: UpdateSerialisableInfo_def)

text \<open>
  Claim C8, amended. The migration chain is idempotent at the target version: the chain
  applies the step only while the version is below 5, so on an instance that is already at
  version 5 it applies no step and returns the version and the data unchanged, and running
  the chain again on whatever the chain has returned changes nothing. The step itself has
  no case for version 5: called there, it returns \<open>None\<close> and no data.
\<close>

theorem migration_idempotent_at_target:
  "UpdateSerialisableInfo 5 info = Inr None
   \<and> migrate 5 info = Inr (5, info)
   \<and> (migrate version old = Inr (version', info')
        \<longrightarrow> migrate version' info' = Inr (version', info'))"
  using migrate_reaches_current[of version old version' info']
  by (simp add: UpdateSerialisableInfo_def SERIALISABLE_VERSION_def)

theorem migration_idempotent_at_target_witness:
  "migrate 1 (Tuple1 (True, True, Some 100, Some (10, 10))) =
     Inr (5, Tuple5 ((True, False, False, True, Some 100, None, Some 33554432,
                      Some (10, 10), None),
                     (True, True, True), (True, False, False)))
   \<and> migrate 5 (Tuple5 ((True, False, False, True, Some 100, None, Some 33554432,
                          Some (10, 10), None),
                         (True, True, True), (True, False, False))) =
     Inr (5, Tuple5 ((True, False, False, True, Some 100, None, Some 33554432,
                      Some (10, 10), None),
                     (True, True, True), (True, False, False)))"
proof -
  have chain: "migrate 1 (Tuple1 (True, True, Some 100, Some (10, 10))) =
     Inr (5, Tuple5 ((True, False, False, True, Some 100, None, Some 33554432,
                      Some (10, 10), None),
                     (True, True, True), (True, False, False)))"
    by (simp add: UpdateSerialisableInfo_def SERIALISABLE_VERSION_def)
  from migration_idempotent_at_target[of
      "Tuple5 ((True, False, False, True, Some 100, None, Some 33554432, Some (10, 10), None),
               (True, True, True), (True, False, False))"
      1 "Tuple1 (True, True, Some 100, Some (10, 10))" 5
      "Tuple5 ((True, False, False, True, Some 100, None, Some 33554432, Some (10, 10), None),
               (True, True, True), (True, False, False))"]
    chain
  show ?thesis by blast
qed

section \<open>Validation\<close>

text \<open>
  Claim C3. \<open>CheckFileIsValid\<close> runs its checks in the order minimum size, maximum size,
  gif cap, minimum resolution, maximum resolution, and raises the violation of the first
  check that fails: its outcome is the first failure of the five checks taken in that order,
  each on its own, so a check after the first failure has no part in the outcome. In
  particular, for a file below the minimum size and below the minimum resolution (in width
  or in height), the violation raised is the one that cites the size of the file and the
  minimum size, and not the one that cites the resolutions.
\<close>

theorem CheckFileIsValid_first_failure:
  "CheckFileIsValid hc hdata self sz m width height =
     first_failure (ordered_checks hc hdata self sz m width height)
   \<and> (min_size self = Some lim \<and> sz < lim \<and> min_resolution self = Some (min_width, min_height)
        \<and> ((\<exists>w. width = Some w \<and> w < min_width) \<or> (\<exists>h. height = Some h \<and> h < min_height))
      \<longrightarrow> CheckFileIsValid hc hdata self sz m width height =
            Inl (FileSizeException (''File was '' @ ToHumanBytes hdata sz
                   @ '' but the lower limit is '' @ ToHumanBytes hdata lim @ ''.''))
          \<and> CheckFileIsValid hc hdata self sz m width height \<noteq>
            Inl (FileSizeException (''File had resolution ''
                   @ ConvertResolutionToPrettyString hdata (width, height)
                   @ '' but the lower limit is ''
                   @ ConvertResolutionToPrettyString hdata (Some min_width, Some min_height))))"
proof -
  have order: "CheckFileIsValid hc hdata self sz m width height =
     first_failure (ordered_checks hc hdata self sz m width height)"
    by (simp add: CheckFileIsValid_def ordered_checks_def and_then_Inr and_then_Inl Let_def
          split: option.split prod.split)
  have size_first: "CheckFileIsValid hc hdata self sz m width height =
            Inl (FileSizeException (''File was '' @ ToHumanBytes hdata sz
                   @ '' but the lower limit is '' @ ToHumanBytes hdata lim @ ''.''))"
    if "min_size self = Some lim" "sz < lim"
    using that by (simp add: CheckFileIsValid_def and_then_Inl)
  show ?thesis using order size_first by simp
qed

theorem CheckFileIsValid_first_failure_witness:
  "CheckFileIsValid example_HC example_HydrusData
     (FileImportOptions_init\<lparr>min_size := Some 600, min_resolution := Some (100, 100)\<rparr>)
     500 2 (Some 10) (Some 200) =
   Inl (FileSizeException ''File was 500B but the lower limit is 600B.'')
   \<and> first_failure (ordered_checks example_HC example_HydrusData
       (FileImportOptions_init\<lparr>min_size := Some 600, min_resolution := Some (100, 100)\<rparr>)
       500 2 (Some 10) (Some 200)) =
   Inl (FileSizeException ''File was 500B but the lower limit is 600B.'')"
  using CheckFileIsValid_first_failure[of example_HC example_HydrusData
      "FileImportOptions_init\<lparr>min_size := Some 600, min_resolution := Some (100, 100)\<rparr>"
      500 2 "Some 10" "Some 200" 600 100 100]
  by (simp add: example_defs CheckFileIsValid_def and_then_def ordered_checks_def)

section \<open>Reconciliation of a status with the store\<close>

text \<open>
  Claim C4. For a status with the code of an already present file whose hash and media
  type are both set: when the store reports the file missing, \<open>CheckFileImportStatus\<close>
  returns a new status with the code unknown, the same hash and media type, and a note
  that says what happened; when the probe succeeds it returns the status it was given.
  When the hash or the media type is absent it returns the status it was given without
  probing. In all three cases the only call that can be added to the trace is the probe:
  nothing is written.
\<close>

theorem CheckFileImportStatus_already_in_db:
  "(status st = STATUS_SUCCESSFUL_BUT_REDUNDANT \<and> hash st = Some h \<and> mime st = Some m
      \<and> client_files_manager_GetFilePath c h m = Inl (FileMissingException msg)
    \<longrightarrow> CheckFileImportStatus c st tr =
          (Inr \<lparr>status = STATUS_UNKNOWN, hash = Some h, mime = Some m,
                note = ''The client believed this file was already in the db, but it was truly missing! Import will go ahead, in an attempt to fix the situation.''\<rparr>,
           tr @ [Call_GetFilePath h m]))
   \<and> (status st = STATUS_SUCCESSFUL_BUT_REDUNDANT \<and> (hash st = None \<or> mime st = None)
    \<longrightarrow> CheckFileImportStatus c st tr = (Inr st, tr))
   \<and> (status st = STATUS_SUCCESSFUL_BUT_REDUNDANT \<and> hash st = Some h \<and> mime st = Some m
      \<and> client_files_manager_GetFilePath c h m = Inr path
    \<longrightarrow> CheckFileImportStatus c st tr = (Inr st, tr @ [Call_GetFilePath h m]))"
  by (auto simp add: CheckFileImportStatus_def AlreadyInDB_def FileImportStatus_init_def Let_def
      split: option.splits)

theorem CheckFileImportStatus_already_in_db_witness:
  "CheckFileImportStatus
     ((example_collaborators example_already_present)
        \<lparr>client_files_manager_GetFilePath := \<lambda>h m. Inl (FileMissingException ''missing'')\<rparr>)
     example_already_present [] =
     (Inr \<lparr>status = STATUS_UNKNOWN, hash = Some [1, 2, 3], mime = Some 2,
            note = ''The client believed this file was already in the db, but it was truly missing! Import will go ahead, in an attempt to fix the situation.''\<rparr>,
      [Call_GetFilePath [1, 2, 3] 2])
   \<and> CheckFileImportStatus (example_collaborators example_already_present)
       (example_already_present\<lparr>mime := None\<rparr>) [] =
     (Inr (example_already_present\<lparr>mime := None\<rparr>), [])
   \<and> CheckFileImportStatus (example_collaborators example_already_present)
       example_already_present [] =
     (Inr example_already_present, [Call_GetFilePath [1, 2, 3] 2])"
  using
    CheckFileImportStatus_already_in_db[of example_already_present "[1, 2, 3]" 2
      "(example_collaborators example_already_present)
         \<lparr>client_files_manager_GetFilePath := \<lambda>h m. Inl (FileMissingException ''missing'')\<rparr>"
      "''missing''" "[]" "''''"]
    CheckFileImportStatus_already_in_db[of "example_already_present\<lparr>mime := None\<rparr>"
      "[1, 2, 3]" 2 "example_collaborators example_already_present" "''''" "[]" "''''"]
    CheckFileImportStatus_already_in_db[of example_already_present "[1, 2, 3]" 2
      "example_collaborators example_already_present" "''''" "[]"
      "''client_files/f01/010203.png''"]
  by (simp add: example_defs)

text \<open>
  Claim C10. For a status with any other code than that of an already present file,
  \<open>CheckFileImportStatus\<close> returns the status it was given and leaves the trace as it
  was: the store is not probed.
\<close>

theorem CheckFileImportStatus_other_codes:
  "status st \<noteq> STATUS_SUCCESSFUL_BUT_REDUNDANT \<Longrightarrow> CheckFileImportStatus c st tr = (Inr st, tr)"
  by (simp add: CheckFileImportStatus_def AlreadyInDB_def)

theorem CheckFileImportStatus_other_codes_witness:
  "status example_deleted \<noteq> STATUS_SUCCESSFUL_BUT_REDUNDANT
   \<and> CheckFileImportStatus
       ((example_collaborators example_deleted)
          \<lparr>client_files_manager_GetFilePath := \<lambda>h m. Inl (FileMissingException ''missing'')\<rparr>)
       example_deleted [] = (Inr example_deleted, [])"
proof -
  have other: "status example_deleted \<noteq> STATUS_SUCCESSFUL_BUT_REDUNDANT"
    by (simp add: example_defs)
  from other CheckFileImportStatus_other_codes[OF other] show ?thesis
    by simp
qed

section \<open>The import job\<close>

text \<open>
  Claim C1. Take a job whose pre-import stage has returned and whose pre-import status
  permits import, and let the metadata stage return with the file information in place.
  When \<open>CheckFileIsValid\<close> raises on that information, what it raises is a
  \<open>FileSizeException\<close>, and \<open>DoWork\<close> returns normally: its value is a duplicate of the
  job's pre-import status with the code vetoed and the message of the exception as note,
  the job holds that status as its post-import status, and no call is added to the trace.
  The pre-import status duplicated is the job's one at that point, with the hash that the
  lookup stage gave it. With a maximum size of 500, no minimum size and a file of 600
  bytes, the note is the upper-limit message with 600 and 500 in human-readable form.
\<close>

theorem DoWork_veto:
  assumes pre: "GeneratePreImportHashAndStatus c status_hook (job, tr) = (Inr (), (job1, tr1))"
    and go: "ShouldImport (pre_import_file_status job1) (file_import_options job1)"
    and info: "GenerateInfo c hc status_hook (job1, tr1) = (Inr (), (job2, tr2))"
    and fi: "file_info job2 = Some (sz, m, width, height, duration, num_frames, has_audio, num_words)"
  shows "(CheckFileIsValid hc hdata (file_import_options job2) sz m width height = Inl e
          \<longrightarrow> (\<exists>msg. e = FileSizeException msg
                \<and> DoWork c hc hdata status_hook (job, tr) =
                    (Inr ((Duplicate (pre_import_file_status job2))
                            \<lparr>status := STATUS_VETOED, note := msg\<rparr>),
                     (job2\<lparr>post_import_file_status :=
                              (Duplicate (pre_import_file_status job2))
                                \<lparr>status := STATUS_VETOED, note := msg\<rparr>\<rparr>,
                      tr2))))
       \<and> (sz = 600 \<and> min_size (file_import_options job2) = None
            \<and> max_size (file_import_options job2) = Some 500
          \<longrightarrow> fst (DoWork c hc hdata status_hook (job, tr)) =
                Inr ((pre_import_file_status job2)
                       \<lparr>status := STATUS_VETOED,
                        note := ''File was '' @ ToHumanBytes hdata 600
                                  @ '' but the upper limit is '' @ ToHumanBytes hdata 500 @ ''.''\<rparr>))
       \<and> Duplicate (pre_import_file_status job2) = pre_import_file_status job2
       \<and> hash (pre_import_file_status job2) = hash (pre_import_file_status job1)"
proof -
  have general: "\<exists>msg. e = FileSizeException msg
                \<and> DoWork c hc hdata status_hook (job, tr) =
                    (Inr ((Duplicate (pre_import_file_status job2))
                            \<lparr>status := STATUS_VETOED, note := msg\<rparr>),
                     (job2\<lparr>post_import_file_status :=
                              (Duplicate (pre_import_file_status job2))
                                \<lparr>status := STATUS_VETOED, note := msg\<rparr>\<rparr>,
                      tr2))"
    if veto: "CheckFileIsValid hc hdata (file_import_options job2) sz m width height = Inl e" for e
  proof -
    from CheckFileIsValid_raises_FileSizeException[OF veto] obtain msg
      where e: "e = FileSizeException msg"
      by blast
    have "CheckIsGoodToImport hc hdata (job2, tr2) = (Inl (FileSizeException msg), (job2, tr2))"
      using fi veto e by (simp add: CheckIsGoodToImport_def run_defs)
    then show ?thesis using pre go info e
      by (simp add: DoWork_def PubsubContentUpdates_def run_defs AlreadyInDB_def Let_def)
  qed
  have example: "fst (DoWork c hc hdata status_hook (job, tr)) =
                Inr ((pre_import_file_status job2)
                       \<lparr>status := STATUS_VETOED,
                        note := ''File was '' @ ToHumanBytes hdata 600
                                  @ '' but the upper limit is '' @ ToHumanBytes hdata 500 @ ''.''\<rparr>)"
    if "sz = 600" "min_size (file_import_options job2) = None"
      "max_size (file_import_options job2) = Some 500"
  proof -
    have "CheckFileIsValid hc hdata (file_import_options job2) sz m width height =
        Inl (FileSizeException (''File was '' @ ToHumanBytes hdata 600
                                  @ '' but the upper limit is '' @ ToHumanBytes hdata 500 @ ''.''))"
      using that by (simp add: CheckFileIsValid_def and_then_def)
    from general[OF this] show ?thesis
      by (simp add: Duplicate_same)
  qed
  have "frame is_content_update (filter is_content_update tr1)
          (\<lambda>j. job_frame (file_import_options job1) (temp_path job1) j
                \<and> identified (hash (pre_import_file_status job1)) j) (job2, tr2)"
    by (rule stable_on[where s = "(job1, tr1)" and m = "GenerateInfo c hc status_hook",
          OF _ frame_GenerateInfo])
       (simp_all add: run_from_def info frame_def job_frame_def identified_def
          content_update_not_extraction)
  then have "hash (pre_import_file_status job2) = hash (pre_import_file_status job1)"
    by (simp add: frame_def identified_def)
  with general example show ?thesis
    by (simp add: Duplicate_same del: ex_simps)
qed

theorem DoWork_veto_witness:
  "fst (DoWork (example_collaborators STATICGetUnknownStatus) example_HC example_HydrusData False
     (example_job (FileImportOptions_init\<lparr>max_size := Some 500\<rparr>), [])) =
   Inr \<lparr>status = STATUS_VETOED, hash = Some [1, 2, 3], mime = Some 2,
         note = ''File was 600B but the upper limit is 500B.''\<rparr>
   \<and> snd (snd (DoWork (example_collaborators STATICGetUnknownStatus) example_HC
       example_HydrusData False
       (example_job (FileImportOptions_init\<lparr>max_size := Some 500\<rparr>), []))) =
     [Call_ConvertToPNGIfBMP ''/tmp/import'', Call_GetHashFromPath ''/tmp/import'',
      Call_Read_hash_status [1, 2, 3], Call_GetMime ''/tmp/import'',
      Call_GetFileInfo ''/tmp/import'' 2,
      Call_GetThumbnailResolution (Some 10, Some 10) (200, 200),
      Call_GenerateThumbnailBytes ''/tmp/import'' (200, 200) 2 None None 35,
      Call_GenerateShapePerceptualHashes ''/tmp/import'' 2,
      Call_GetExtraHashesFromPath ''/tmp/import'', Call_GetFileModifiedTimestamp ''/tmp/import'']"
proof -
  define c where "c = example_collaborators STATICGetUnknownStatus"
  define job where "job = example_job (FileImportOptions_init\<lparr>max_size := Some 500\<rparr>)"
  define s1 where "s1 = snd (GeneratePreImportHashAndStatus c False (job, []))"
  define s2 where "s2 = snd (GenerateInfo c example_HC False s1)"
  note defs = c_def job_def s1_def s2_def model_defs example_defs
  have pre: "GeneratePreImportHashAndStatus c False (job, []) = (Inr (), (fst s1, snd s1))"
    by (simp add: defs)
  have go: "ShouldImport (pre_import_file_status (fst s1)) (file_import_options (fst s1))"
    by (simp add: defs)
  have info: "GenerateInfo c example_HC False (fst s1, snd s1) = (Inr (), (fst s2, snd s2))"
    by (simp add: defs)
  have fi: "file_info (fst s2) = Some (600, 2, Some 10, Some 10, None, None, False, None)"
    by (simp add: defs)
  have veto: "CheckFileIsValid example_HC example_HydrusData (file_import_options (fst s2))
      600 2 (Some 10) (Some 10) =
      Inl (FileSizeException ''File was 600B but the upper limit is 500B.'')"
    by (simp add: defs)
  have after: "pre_import_file_status (fst s2) =
      \<lparr>status = STATUS_UNKNOWN, hash = Some [1, 2, 3], mime = Some 2, note = []\<rparr>"
    "snd s2 =
     [Call_ConvertToPNGIfBMP ''/tmp/import'', Call_GetHashFromPath ''/tmp/import'',
      Call_Read_hash_status [1, 2, 3], Call_GetMime ''/tmp/import'',
      Call_GetFileInfo ''/tmp/import'' 2,
      Call_GetThumbnailResolution (Some 10, Some 10) (200, 200),
      Call_GenerateThumbnailBytes ''/tmp/import'' (200, 200) 2 None None 35,
      Call_GenerateShapePerceptualHashes ''/tmp/import'' 2,
      Call_GetExtraHashesFromPath ''/tmp/import'', Call_GetFileModifiedTimestamp ''/tmp/import'']"
    by (simp_all add: defs)
  from DoWork_veto[OF pre go info fi, of example_HydrusData
      "FileSizeException ''File was 600B but the upper limit is 500B.''"] veto after
  show ?thesis
    by (simp add: c_def job_def Duplicate_same)
qed

text \<open>
  Claim C5, as the claim states it: for every job whose pre-import status does not permit
  import, \<open>DoWork\<close> returns a duplicate of that status. In the example setting, with the
  file already present, the options archiving automatically and a write port that refuses
  the content update, the pre-import stage returns the already present status, which does
  not permit import, and \<open>DoWork\<close> ends with the exception of the write port: it returns
  no status.
\<close>

theorem DoWork_short_circuit_counterexample:
  "fst (GeneratePreImportHashAndStatus
          ((example_collaborators example_already_present)
             \<lparr>controller_Write_content_updates := \<lambda>updates. Inl (Fault ''write refused'')\<rparr>)
          False (example_job (FileImportOptions_init\<lparr>automatic_archive := True\<rparr>), [])) = Inr ()
   \<and> pre_import_file_status (fst (snd (GeneratePreImportHashAndStatus
          ((example_collaborators example_already_present)
             \<lparr>controller_Write_content_updates := \<lambda>updates. Inl (Fault ''write refused'')\<rparr>)
          False (example_job (FileImportOptions_init\<lparr>automatic_archive := True\<rparr>), [])))) =
       example_already_present
   \<and> \<not> ShouldImport example_already_present (FileImportOptions_init\<lparr>automatic_archive := True\<rparr>)
   \<and> fst (DoWork
          ((example_collaborators example_already_present)
             \<lparr>controller_Write_content_updates := \<lambda>updates. Inl (Fault ''write refused'')\<rparr>)
          example_HC example_HydrusData False
          (example_job (FileImportOptions_init\<lparr>automatic_archive := True\<rparr>), [])) =
       Inl (Fault ''write refused'')"
  by (simp add: model_defs example_defs)

text \<open>
  Claim C5, amended. For every job whose pre-import stage has returned with a status that
  does not permit import, \<open>DoWork\<close> calls neither the metadata extraction nor the store's
  add operation nor the import of the write port. It returns a duplicate of the pre-import
  status (which is that status itself), except when the status has the code of an already
  present file and the options archive automatically and the archive update that
  \<open>PubsubContentUpdates\<close> then sends raises: in that case the exception of the write port
  leaves \<open>DoWork\<close>. A status permits import exactly when its code is unknown, or
  previously deleted with exclude_deleted not set: so a previously deleted file with
  exclude_deleted set, an already present file and a vetoed file never do, and for the
  first and the last of these \<open>DoWork\<close> always returns the duplicate.
\<close>

theorem DoWork_short_circuit:
  assumes pre: "GeneratePreImportHashAndStatus c status_hook (job, tr) = (Inr (), (job1, tr1))"
    and skip: "\<not> ShouldImport (pre_import_file_status job1) (file_import_options job1)"
  shows "filter is_metadata_extraction (snd (snd (DoWork c hc hdata status_hook (job, tr)))) =
           filter is_metadata_extraction tr
       \<and> filter is_commit_operation (snd (snd (DoWork c hc hdata status_hook (job, tr)))) =
           filter is_commit_operation tr
       \<and> fst (DoWork c hc hdata status_hook (job, tr)) =
           (if status (pre_import_file_status job1) = STATUS_SUCCESSFUL_BUT_REDUNDANT
                 \<and> automatic_archive (file_import_options job1)
            then (case controller_Write_content_updates c
                         [(COMBINED_LOCAL_FILE_SERVICE_KEY,
                           [ContentUpdate CONTENT_TYPE_FILES CONTENT_UPDATE_ARCHIVE
                              {hash (pre_import_file_status job1)}])] of
                    Inl e \<Rightarrow> Inl e
                  | Inr u \<Rightarrow> Inr (Duplicate (pre_import_file_status job1)))
            else Inr (Duplicate (pre_import_file_status job1)))
       \<and> Duplicate (pre_import_file_status job1) = pre_import_file_status job1
       \<and> (ShouldImport st opts \<longleftrightarrow>
            status st = STATUS_UNKNOWN \<or> (status st = STATUS_DELETED \<and> \<not> exclude_deleted opts))
       \<and> (status st = STATUS_DELETED \<and> exclude_deleted opts \<longrightarrow> \<not> ShouldImport st opts)
       \<and> (status st = STATUS_SUCCESSFUL_BUT_REDUNDANT \<or> status st = STATUS_VETOED
            \<longrightarrow> \<not> ShouldImport st opts)"
proof -
  have "frame is_metadata_extraction (filter is_metadata_extraction tr)
          (job_frame (file_import_options job) (temp_path job)) (job1, tr1)"
    by (rule stable_on[where s = "(job, tr)"
          and m = "GeneratePreImportHashAndStatus c status_hook",
          OF _ frame_GeneratePreImportHashAndStatus])
       (simp_all add: run_from_def pre frame_def job_frame_def)
  then have extraction: "filter is_metadata_extraction tr1 = filter is_metadata_extraction tr"
    by (simp add: frame_def)
  have "frame is_commit_operation (filter is_commit_operation tr)
          (job_frame (file_import_options job) (temp_path job)) (job1, tr1)"
    by (rule stable_on[where s = "(job, tr)"
          and m = "GeneratePreImportHashAndStatus c status_hook",
          OF _ frame_GeneratePreImportHashAndStatus])
       (simp_all add: run_from_def pre frame_def job_frame_def)
  then have commit: "filter is_commit_operation tr1 = filter is_commit_operation tr"
    by (simp add: frame_def)
  have traces: "filter is_metadata_extraction (snd (snd (DoWork c hc hdata status_hook (job, tr)))) =
           filter is_metadata_extraction tr
       \<and> filter is_commit_operation (snd (snd (DoWork c hc hdata status_hook (job, tr)))) =
           filter is_commit_operation tr"
    using pre skip extraction commit
    by (simp add: DoWork_def PubsubContentUpdates_def run_defs Duplicate_same GetHash_def Let_def
          split: sum.split)
  have returned: "fst (DoWork c hc hdata status_hook (job, tr)) =
           (if status (pre_import_file_status job1) = STATUS_SUCCESSFUL_BUT_REDUNDANT
                 \<and> automatic_archive (file_import_options job1)
            then (case controller_Write_content_updates c
                         [(COMBINED_LOCAL_FILE_SERVICE_KEY,
                           [ContentUpdate CONTENT_TYPE_FILES CONTENT_UPDATE_ARCHIVE
                              {hash (pre_import_file_status job1)}])] of
                    Inl e \<Rightarrow> Inl e
                  | Inr u \<Rightarrow> Inr (Duplicate (pre_import_file_status job1)))
            else Inr (Duplicate (pre_import_file_status job1)))"
    using pre skip
    by (simp add: DoWork_def PubsubContentUpdates_def run_defs Duplicate_same GetHash_def Let_def
          AlreadyInDB_def AutomaticallyArchives_def split: sum.split)
  have codes: "(ShouldImport st opts \<longleftrightarrow>
            status st = STATUS_UNKNOWN \<or> (status st = STATUS_DELETED \<and> \<not> exclude_deleted opts))
       \<and> (status st = STATUS_DELETED \<and> exclude_deleted opts \<longrightarrow> \<not> ShouldImport st opts)
       \<and> (status st = STATUS_SUCCESSFUL_BUT_REDUNDANT \<or> status st = STATUS_VETOED
            \<longrightarrow> \<not> ShouldImport st opts)"
    by (auto simp: ShouldImport_def ExcludesDeleted_def)
  from traces returned codes Duplicate_same[of "pre_import_file_status job1"] show ?thesis
    by blast
qed

theorem DoWork_short_circuit_witness:
  "DoWork (example_collaborators example_deleted) example_HC example_HydrusData False
     (example_job FileImportOptions_init, []) =
   (Inr example_deleted,
    ((example_job FileImportOptions_init)
       \<lparr>pre_import_file_status := example_deleted, post_import_file_status := example_deleted\<rparr>,
     [Call_ConvertToPNGIfBMP ''/tmp/import'', Call_GetHashFromPath ''/tmp/import'',
      Call_Read_hash_status [1, 2, 3]]))
   \<and> status example_deleted = STATUS_DELETED \<and> exclude_deleted FileImportOptions_init
   \<and> fst (DoWork (example_collaborators example_already_present) example_HC example_HydrusData
       False (example_job (FileImportOptions_init\<lparr>automatic_archive := True\<rparr>), [])) =
     Inr example_already_present"
proof -
  let ?job = "example_job FileImportOptions_init"
  let ?job1 = "?job\<lparr>pre_import_file_status := example_deleted\<rparr>"
  let ?tr1 = "[Call_ConvertToPNGIfBMP ''/tmp/import'', Call_GetHashFromPath ''/tmp/import'',
    Call_Read_hash_status [1, 2, 3]]"
  let ?archiving = "example_job (FileImportOptions_init\<lparr>automatic_archive := True\<rparr>)"
  let ?present1 = "?archiving\<lparr>pre_import_file_status := example_already_present\<rparr>"
  let ?present_tr1 = "[Call_ConvertToPNGIfBMP ''/tmp/import'', Call_GetHashFromPath ''/tmp/import'',
    Call_Read_hash_status [1, 2, 3], Call_GetFilePath [1, 2, 3] 2]"
  have pre: "GeneratePreImportHashAndStatus (example_collaborators example_deleted) False
      (?job, []) = (Inr (), (?job1, ?tr1))"
    by (simp add: model_defs example_defs)
  have skip: "\<not> ShouldImport (pre_import_file_status ?job1) (file_import_options ?job1)"
    by (simp add: model_defs example_defs)
  have deleted: "status example_deleted = STATUS_DELETED \<and> exclude_deleted FileImportOptions_init"
    by (simp add: example_defs)
  have state: "snd (DoWork (example_collaborators example_deleted) example_HC example_HydrusData
      False (?job, [])) = (?job1\<lparr>post_import_file_status := example_deleted\<rparr>, ?tr1)"
    by (simp add: model_defs example_defs)
  have pre': "GeneratePreImportHashAndStatus (example_collaborators example_already_present) False
      (?archiving, []) = (Inr (), (?present1, ?present_tr1))"
    by (simp add: model_defs example_defs)
  have skip': "\<not> ShouldImport (pre_import_file_status ?present1) (file_import_options ?present1)"
    by (simp add: model_defs example_defs)
  have outcome: "fst (DoWork (example_collaborators example_deleted) example_HC example_HydrusData
      False (?job, [])) = Inr example_deleted"
    using DoWork_short_circuit[OF pre skip, of example_HC example_HydrusData]
    by (simp add: example_defs Duplicate_same)
  have outcome': "fst (DoWork (example_collaborators example_already_present) example_HC
      example_HydrusData False (?archiving, [])) = Inr example_already_present"
    using DoWork_short_circuit[OF pre' skip', of example_HC example_HydrusData]
    by (simp add: example_defs Duplicate_same)
  from outcome state have "DoWork (example_collaborators example_deleted) example_HC
      example_HydrusData False (?job, []) =
      (Inr example_deleted, (?job1\<lparr>post_import_file_status := example_deleted\<rparr>, ?tr1))"
    by (simp add: prod_eq_iff)
  with deleted outcome' show ?thesis
    by simp
qed

text \<open>
  Claim C6, as the claim states it: the error raised on a positive pixel scan is a
  \<open>DamagedOrUnusualFileException\<close>. In the example setting, with decompression bombs
  disallowed, the job ends with a \<open>DecompressionBombException\<close>, which is another
  class.
\<close>

theorem DoWork_decompression_bomb_counterexample:
  "fst (DoWork (example_collaborators STATICGetUnknownStatus) example_HC example_HydrusData False
     (example_job (FileImportOptions_init\<lparr>allow_decompression_bombs := False\<rparr>), [])) =
   Inl (DecompressionBombException ''Image seems to be a Decompression Bomb!'')
   \<and> \<not> (case fst (DoWork (example_collaborators STATICGetUnknownStatus) example_HC
             example_HydrusData False
             (example_job (FileImportOptions_init\<lparr>allow_decompression_bombs := False\<rparr>), []))
        of Inl (DamagedOrUnusualFileException msg) \<Rightarrow> True | other \<Rightarrow> False)"
  by (simp add: model_defs example_defs)

text \<open>
  Claim C6, amended. On the import path, that is when the pre-import stage has returned
  with a status that permits import: when the media type of the file (the one of the
  pre-import status, or the sniffed one when that status has none) is in the
  decompression-bomb-risk class, the options disallow decompression bombs and the pixel
  scan is positive, the job raises a \<open>DecompressionBombException\<close> with the message
  "Image seems to be a Decompression Bomb!", which leaves \<open>DoWork\<close> uncaught: the job
  ends with that exception and returns no status.
\<close>

theorem DoWork_decompression_bomb:
  assumes pre: "GeneratePreImportHashAndStatus c status_hook (job, tr) = (Inr (), (job1, tr1))"
    and go: "ShouldImport (pre_import_file_status job1) (file_import_options job1)"
    and detected: "mime (pre_import_file_status job1) = Some m
        \<or> (mime (pre_import_file_status job1) = None
            \<and> HydrusFileHandling_GetMime c (temp_path job1) = Inr m)"
    and risk: "m \<in> set (DECOMPRESSION_BOMB_IMAGES hc)"
    and disallowed: "\<not> AllowsDecompressionBombs (file_import_options job1)"
    and probe: "HydrusImageHandling_IsDecompressionBomb c (temp_path job1) = Inr True"
  shows "fst (DoWork c hc hdata status_hook (job, tr)) =
           Inl (DecompressionBombException ''Image seems to be a Decompression Bomb!'')"
proof -
  have "fst (GenerateInfo c hc status_hook (job1, tr1)) =
          Inl (DecompressionBombException ''Image seems to be a Decompression Bomb!'')"
    using detected risk disallowed probe
    by (auto simp: GenerateInfo_def run_defs)
  then obtain s2 where "GenerateInfo c hc status_hook (job1, tr1) =
      (Inl (DecompressionBombException ''Image seems to be a Decompression Bomb!''), s2)"
    by (metis prod.collapse)
  then show ?thesis using pre go
    by (simp add: DoWork_def then_run_def get_self_def)
qed

theorem DoWork_decompression_bomb_witness:
  "DoWork (example_collaborators STATICGetUnknownStatus) example_HC example_HydrusData False
     (example_job (FileImportOptions_init\<lparr>allow_decompression_bombs := False\<rparr>), []) =
   (Inl (DecompressionBombException ''Image seems to be a Decompression Bomb!''),
    ((example_job (FileImportOptions_init\<lparr>allow_decompression_bombs := False\<rparr>))
       \<lparr>pre_import_file_status :=
          \<lparr>status = STATUS_UNKNOWN, hash = Some [1, 2, 3], mime = Some 2, note = []\<rparr>\<rparr>,
     [Call_ConvertToPNGIfBMP ''/tmp/import'', Call_GetHashFromPath ''/tmp/import'',
      Call_Read_hash_status [1, 2, 3], Call_GetMime ''/tmp/import'',
      Call_IsDecompressionBomb ''/tmp/import'']))"
proof -
  define c where "c = example_collaborators STATICGetUnknownStatus"
  define job where
    "job = example_job (FileImportOptions_init\<lparr>allow_decompression_bombs := False\<rparr>)"
  define job1 where "job1 = job\<lparr>pre_import_file_status :=
    \<lparr>status = STATUS_UNKNOWN, hash = Some [1, 2, 3], mime = None, note = []\<rparr>\<rparr>"
  define tr1 where "tr1 = [Call_ConvertToPNGIfBMP ''/tmp/import'',
    Call_GetHashFromPath ''/tmp/import'', Call_Read_hash_status [1, 2, 3]]"
  note defs = c_def job_def job1_def tr1_def model_defs example_defs
  have pre: "GeneratePreImportHashAndStatus c False (job, []) = (Inr (), (job1, tr1))"
    by (simp add: defs)
  have go: "ShouldImport (pre_import_file_status job1) (file_import_options job1)"
    by (simp add: defs)
  have detected: "mime (pre_import_file_status job1) = Some 2
        \<or> (mime (pre_import_file_status job1) = None
            \<and> HydrusFileHandling_GetMime c (temp_path job1) = Inr 2)"
    by (simp add: defs)
  have risk: "2 \<in> set (DECOMPRESSION_BOMB_IMAGES example_HC)"
    by (simp add: defs)
  have disallowed: "\<not> AllowsDecompressionBombs (file_import_options job1)"
    by (simp add: defs)
  have probe: "HydrusImageHandling_IsDecompressionBomb c (temp_path job1) = Inr True"
    by (simp add: defs)
  have state: "snd (DoWork c example_HC example_HydrusData False (job, [])) =
    (job\<lparr>pre_import_file_status :=
          \<lparr>status = STATUS_UNKNOWN, hash = Some [1, 2, 3], mime = Some 2, note = []\<rparr>\<rparr>,
     [Call_ConvertToPNGIfBMP ''/tmp/import'', Call_GetHashFromPath ''/tmp/import'',
      Call_Read_hash_status [1, 2, 3], Call_GetMime ''/tmp/import'',
      Call_IsDecompressionBomb ''/tmp/import''])"
    by (simp add: defs)
  from DoWork_decompression_bomb[OF pre go detected risk disallowed probe,
      of example_HydrusData] state
  show ?thesis
    by (simp add: c_def job_def prod_eq_iff)
qed

text \<open>
  Claim C7. When \<open>DoWork\<close> returns, the content updates that the run has sent to the
  write port are: exactly one, the archive update for the hash of the file, when the status
  returned has the code of an already present file and the field automatic_archive of the
  options is set; none when automatic_archive is not set or the status returned has another
  code. The hash of that update is the one computed from the file at the start of the run.
\<close>

theorem DoWork_archive_update:
  assumes run: "DoWork c hc hdata status_hook (job, tr) = (Inr st, (job', tr'))"
  shows "\<exists>h. HydrusFileHandling_GetHashFromPath c (temp_path job) = Inr h
     \<and> hash (pre_import_file_status job') = Some h
     \<and> filter is_content_update tr' = filter is_content_update tr @
         (if status st = STATUS_SUCCESSFUL_BUT_REDUNDANT
               \<and> automatic_archive (file_import_options job)
          then [Call_Write_content_updates
                 [(COMBINED_LOCAL_FILE_SERVICE_KEY,
                   [ContentUpdate CONTENT_TYPE_FILES CONTENT_UPDATE_ARCHIVE {Some h}])]]
          else [])"
proof -
  from run have "run_from (job, tr) (DoWork c hc hdata status_hook) = (Inr st, (job', tr'))"
    by (simp add: run_from_def)
  then show ?thesis
    unfolding DoWork_def
  proof (elim then_runE, goal_cases)
    case (1 u1 s1 self1 s1' u2 s2 u3 s3 self3 s3')
    note pre = 1(1) and body = 1(3) and pub = 1(4)
    from 1(2) have s1': "s1' = s1"
      by (simp add: run_from_def get_self_def)
    from 1(5) 1(6) have s3: "s3 = (job', tr')" and st: "st = post_import_file_status job'"
      by (auto simp: run_from_def get_self_def return_value_def)
    from GeneratePreImportHashAndStatus_identity[OF pre[unfolded run_from_def]] obtain h
      where h: "HydrusFileHandling_GetHashFromPath c (temp_path job) = Inr h"
        and h1: "hash (pre_import_file_status (fst s1)) = Some h"
      by blast
    define I where "I = frame is_content_update (filter is_content_update tr)
      (\<lambda>j. job_frame (file_import_options job) (temp_path job) j \<and> identified (Some h) j)"
    have "frame is_content_update (filter is_content_update tr)
            (job_frame (file_import_options job) (temp_path job)) s1"
      by (rule stable_on[where I = "frame is_content_update (filter is_content_update tr)
            (job_frame (file_import_options job) (temp_path job))",
            OF pre frame_GeneratePreImportHashAndStatus])
         (simp_all add: frame_def job_frame_def)
    with h1 have I1: "I s1'"
      by (simp add: I_def frame_def identified_def s1')
    have I2: "I s2"
      apply (rule stable_on[where I = I, OF body _ I1])
      apply (unfold I_def Let_def)
      apply (intro stable_if stable_then frame_GenerateInfo stable_case_outcome
               CheckIsGoodToImport_state)
      subgoal for ev by (cases ev) simp_all
      subgoal by simp
      subgoal for u r
        apply (cases r)
        subgoal for x
          by (cases x)
             (simp_all add: stable_def frame_def update_self_def job_frame_def identified_def)
        apply simp
        apply (intro stable_then stable_get_self frame_call frame_hook frame_update)
        apply (simp_all add: job_frame_def identified_def)
        done
      subgoal by (intro frame_update) (simp add: job_frame_def identified_def)
      done
    from PubsubContentUpdates_result[OF pub[unfolded run_from_def]] s3
    have job': "job' = fst s2"
      and tr': "tr' = snd s2 @
        (if AlreadyInDB (post_import_file_status (fst s2))
              \<and> AutomaticallyArchives (file_import_options (fst s2))
         then [Call_Write_content_updates
                [(COMBINED_LOCAL_FILE_SERVICE_KEY,
                  [ContentUpdate CONTENT_TYPE_FILES CONTENT_UPDATE_ARCHIVE {GetHash (fst s2)}])]]
         else [])"
      by auto
    from I2 have keep: "filter is_content_update (snd s2) = filter is_content_update tr"
      "file_import_options (fst s2) = file_import_options job"
      "hash (pre_import_file_status (fst s2)) = Some h"
      by (simp_all add: I_def frame_def job_frame_def identified_def)
    have "hash (pre_import_file_status job') = Some h
     \<and> filter is_content_update tr' = filter is_content_update tr @
         (if status st = STATUS_SUCCESSFUL_BUT_REDUNDANT
               \<and> automatic_archive (file_import_options job)
          then [Call_Write_content_updates
                 [(COMBINED_LOCAL_FILE_SERVICE_KEY,
                   [ContentUpdate CONTENT_TYPE_FILES CONTENT_UPDATE_ARCHIVE {Some h}])]]
          else [])"
      using keep st
      by (simp add: tr' job' GetHash_def AlreadyInDB_def AutomaticallyArchives_def)
    with h show ?case
      by blast
  qed
qed

theorem DoWork_archive_update_witness:
  "fst (DoWork (example_collaborators example_already_present) example_HC example_HydrusData
     False (example_job (FileImportOptions_init\<lparr>automatic_archive := True\<rparr>), [])) =
     Inr example_already_present
   \<and> filter is_content_update
       (snd (snd (DoWork (example_collaborators example_already_present) example_HC
          example_HydrusData False
          (example_job (FileImportOptions_init\<lparr>automatic_archive := True\<rparr>), [])))) =
     [Call_Write_content_updates
        [(COMBINED_LOCAL_FILE_SERVICE_KEY,
          [ContentUpdate CONTENT_TYPE_FILES CONTENT_UPDATE_ARCHIVE {Some [1, 2, 3]}])]]
   \<and> fst (DoWork (example_collaborators example_already_present) example_HC example_HydrusData
       False (example_job (FileImportOptions_init\<lparr>automatic_archive := False\<rparr>), [])) =
     Inr example_already_present
   \<and> filter is_content_update
       (snd (snd (DoWork (example_collaborators example_already_present) example_HC
          example_HydrusData False
          (example_job (FileImportOptions_init\<lparr>automatic_archive := False\<rparr>), [])))) = []
   \<and> fst (DoWork (example_collaborators STATICGetUnknownStatus) example_HC example_HydrusData
       False (example_job (FileImportOptions_init\<lparr>automatic_archive := True\<rparr>), [])) =
     Inr \<lparr>status = STATUS_SUCCESSFUL_AND_NEW, hash = Some [1, 2, 3], mime = Some 2, note = []\<rparr>
   \<and> filter is_content_update
       (snd (snd (DoWork (example_collaborators STATICGetUnknownStatus) example_HC
          example_HydrusData False
          (example_job (FileImportOptions_init\<lparr>automatic_archive := True\<rparr>), [])))) = []"
proof -
  let ?archiving = "example_job (FileImportOptions_init\<lparr>automatic_archive := True\<rparr>)"
  let ?plain = "example_job (FileImportOptions_init\<lparr>automatic_archive := False\<rparr>)"
  let ?present = "DoWork (example_collaborators example_already_present) example_HC
      example_HydrusData False (?archiving, [])"
  let ?unarchived = "DoWork (example_collaborators example_already_present) example_HC
      example_HydrusData False (?plain, [])"
  let ?new = "DoWork (example_collaborators STATICGetUnknownStatus) example_HC
      example_HydrusData False (?archiving, [])"
  let ?new_status =
    "\<lparr>status = STATUS_SUCCESSFUL_AND_NEW, hash = Some [1, 2, 3], mime = Some 2, note = []\<rparr>"
  have outcomes: "fst ?present = Inr example_already_present"
    "fst ?unarchived = Inr example_already_present" "fst ?new = Inr ?new_status"
    by (simp_all add: model_defs example_defs)
  have identity: "HydrusFileHandling_GetHashFromPath (example_collaborators st) path = Inr [1, 2, 3]"
    for st path
    by (simp add: example_defs)
  have fields: "status example_already_present = STATUS_SUCCESSFUL_BUT_REDUNDANT"
    "automatic_archive (file_import_options ?archiving)"
    "\<not> automatic_archive (file_import_options ?plain)"
    "status ?new_status \<noteq> STATUS_SUCCESSFUL_BUT_REDUNDANT"
    by (simp_all add: example_defs)
  have run1: "?present = (Inr example_already_present, (fst (snd ?present), snd (snd ?present)))"
    using outcomes(1) by (simp add: prod_eq_iff)
  have run2: "?unarchived =
      (Inr example_already_present, (fst (snd ?unarchived), snd (snd ?unarchived)))"
    using outcomes(2) by (simp add: prod_eq_iff)
  have run3: "?new = (Inr ?new_status, (fst (snd ?new), snd (snd ?new)))"
    using outcomes(3) by (simp add: prod_eq_iff)
  from DoWork_archive_update[OF run1] identity fields
  have one: "filter is_content_update (snd (snd ?present)) =
     [Call_Write_content_updates
        [(COMBINED_LOCAL_FILE_SERVICE_KEY,
          [ContentUpdate CONTENT_TYPE_FILES CONTENT_UPDATE_ARCHIVE {Some [1, 2, 3]}])]]"
    by auto
  from DoWork_archive_update[OF run2] fields
  have none_unarchived: "filter is_content_update (snd (snd ?unarchived)) = []"
    by auto
  from DoWork_archive_update[OF run3] fields
  have none_new: "filter is_content_update (snd (snd ?new)) = []"
    by auto
  from outcomes one none_unarchived none_new show ?thesis
    by blast
qed

end
